theory Spec2Isabelle
  imports Main
begin

section \<open>JavaScript strings and arrays\<close>

text \<open>
  A JavaScript string is a sequence of 16-bit code units. It is modelled as a \<open>string\<close>:
  the list of the bytes of its UTF-8 encoding, which is how the source file stores its
  literals. The literals of \<^verbatim>\<open>src/agents/system-prompt.ts\<close> are copied byte for byte
  (bytes outside ASCII are written \<open>CHR 0x..\<close>). A code unit that is half of no surrogate
  pair is carried as the three bytes of its code point, so every JavaScript string has its
  list of bytes; a list of bytes that encodes no string stands for no JavaScript value.
  No byte of a multi-byte sequence is an ASCII byte, so searching, splitting and replacing
  ASCII text acts on the bytes as it acts on the code units.
\<close>

definition NL :: string where
  "NL = [CHR 0x0A]"

text \<open>\<open>String.prototype.startsWith\<close> and \<open>String.prototype.includes\<close>.\<close>

fun startsWith :: "string \<Rightarrow> string \<Rightarrow> bool" where
  "startsWith s [] = True"
| "startsWith [] (n # ns) = False"
| "startsWith (c # cs) (n # ns) = (c = n \<and> startsWith cs ns)"

fun includesStr :: "string \<Rightarrow> string \<Rightarrow> bool" where
  "includesStr [] n = (n = [])"
| "includesStr (c # cs) n = (startsWith (c # cs) n \<or> includesStr cs n)"

text \<open>
  \<open>String.prototype.trim\<close> removes from both ends the code points that ECMAScript calls
  \<open>WhiteSpace\<close> and \<open>LineTerminator\<close>: U+0009 to U+000D, U+0020, U+00A0, U+1680, U+2000 to
  U+200A, U+2028, U+2029, U+202F, U+205F, U+3000 and U+FEFF. \<open>whiteSpaces\<close> lists their
  encodings. \<open>stripStart\<close> removes the listed sequences from the front of a string for as
  long as it starts with one; the end is trimmed on the reversed string with the reversed
  sequences (a lead byte of UTF-8 is no continuation byte, so a string that ends with the
  bytes of a code point ends with that code point).
\<close>

definition whiteSpaces :: "string list" where
  "whiteSpaces =
     [[CHR 0x09], [CHR 0x0A], [CHR 0x0B], [CHR 0x0C], [CHR 0x0D], [CHR 0x20],
      [CHR 0xC2, CHR 0xA0],
      [CHR 0xE1, CHR 0x9A, CHR 0x80],
      [CHR 0xE2, CHR 0x80, CHR 0x80], [CHR 0xE2, CHR 0x80, CHR 0x81],
      [CHR 0xE2, CHR 0x80, CHR 0x82], [CHR 0xE2, CHR 0x80, CHR 0x83],
      [CHR 0xE2, CHR 0x80, CHR 0x84], [CHR 0xE2, CHR 0x80, CHR 0x85],
      [CHR 0xE2, CHR 0x80, CHR 0x86], [CHR 0xE2, CHR 0x80, CHR 0x87],
      [CHR 0xE2, CHR 0x80, CHR 0x88], [CHR 0xE2, CHR 0x80, CHR 0x89],
      [CHR 0xE2, CHR 0x80, CHR 0x8A],
      [CHR 0xE2, CHR 0x80, CHR 0xA8], [CHR 0xE2, CHR 0x80, CHR 0xA9],
      [CHR 0xE2, CHR 0x80, CHR 0xAF],
      [CHR 0xE2, CHR 0x81, CHR 0x9F],
      [CHR 0xE3, CHR 0x80, CHR 0x80],
      [CHR 0xEF, CHR 0xBB, CHR 0xBF]]"

fun stripStart :: "string list \<Rightarrow> string \<Rightarrow> string" where
  "stripStart ws [] = []"
| "stripStart ws (c # cs) =
     (case find (startsWith (c # cs)) ws of
        None \<Rightarrow> c # cs
      | Some w \<Rightarrow> stripStart ws (drop (length w - 1) cs))"

definition trim :: "string \<Rightarrow> string" where
  "trim s = rev (stripStart (map rev whiteSpaces) (rev (stripStart whiteSpaces s)))"

text \<open>
  \<open>String.prototype.toLowerCase\<close>. On a string of ASCII characters it maps A..Z to a..z
  and nothing else. On a string with a character outside ASCII the result follows the
  Unicode case tables of the engine that runs the code, which differ from one version of
  the engine to the next: that part is a parameter, the record \<open>Engine\<close>.
\<close>

record Engine =
  toLowerCaseUnicode :: "string \<Rightarrow> string"

definition isAscii :: "char \<Rightarrow> bool" where
  "isAscii c = ((of_char c :: nat) < 0x80)"

definition toLowerCaseChar :: "char \<Rightarrow> char" where
  "toLowerCaseChar c =
     (case map_of (zip ''ABCDEFGHIJKLMNOPQRSTUVWXYZ'' ''abcdefghijklmnopqrstuvwxyz'') c of
        Some l \<Rightarrow> l
      | None \<Rightarrow> c)"

definition toLowerCase :: "Engine \<Rightarrow> string \<Rightarrow> string" where
  "toLowerCase engine s =
     (if list_all isAscii s then map toLowerCaseChar s else toLowerCaseUnicode engine s)"

text \<open>\<open>Boolean(s)\<close> on a string: only the empty string is falsy.\<close>

definition truthy :: "string \<Rightarrow> bool" where
  "truthy s = (s \<noteq> [])"

text \<open>Truthiness of \<open>string | undefined\<close>: \<open>undefined\<close> and \<open>""\<close> are falsy.\<close>

fun truthyOpt :: "string option \<Rightarrow> bool" where
  "truthyOpt None = False"
| "truthyOpt (Some s) = truthy s"

text \<open>\<open>Array.prototype.join\<close> on an array of strings.\<close>

fun join :: "string \<Rightarrow> string list \<Rightarrow> string" where
  "join sep [] = []"
| "join sep [x] = x"
| "join sep (x # y # ys) = x @ sep @ join sep (y # ys)"

text \<open>\<open>s.split(sep)\<close> for a separator of one character: never the empty array.\<close>

fun split :: "char \<Rightarrow> string \<Rightarrow> string list" where
  "split sep [] = [[]]"
| "split sep (c # cs) =
     (if c = sep then [] # split sep cs
      else (case split sep cs of
              [] \<Rightarrow> [[c]]
            | seg # segs \<Rightarrow> (c # seg) # segs))"

text \<open>\<open>Array.prototype.pop\<close>, the removed element only: \<open>undefined\<close> on the empty array.\<close>

fun pop :: "'a list \<Rightarrow> 'a option" where
  "pop [] = None"
| "pop xs = Some (last xs)"

text \<open>\<open>new Set(xs)\<close>: the elements in first-insertion order, each once.\<close>

definition newSet :: "string list \<Rightarrow> string list" where
  "newSet xs = foldl (\<lambda>s x. if x \<in> set s then s else s @ [x]) [] xs"

definition has :: "string list \<Rightarrow> string \<Rightarrow> bool" where
  "has s x = (x \<in> set s)"

text \<open>
  \<open>Array.prototype.toSorted\<close> with the default comparison: strings in ascending
  lexicographic order of their UTF-16 code units. \<open>codeUnits\<close> decodes the bytes: a
  sequence of one to three bytes is one code unit, a sequence of four bytes is a
  surrogate pair. (Code points from U+E000 to U+FFFF sort after the surrogate pairs,
  unlike in the order of the bytes.)
\<close>

definition payload :: "nat \<Rightarrow> string \<Rightarrow> nat" where
  "payload lead cs = foldl (\<lambda>acc c. acc * 64 + (of_char c :: nat) mod 64) lead cs"

fun codeUnits :: "string \<Rightarrow> nat list" where
  "codeUnits [] = []"
| "codeUnits (c # cs) =
     (let b = (of_char c :: nat)
      in if b < 0xC0 then b # codeUnits cs
         else if b < 0xE0 then payload (b mod 32) (take 1 cs) # codeUnits (drop 1 cs)
         else if b < 0xF0 then payload (b mod 16) (take 2 cs) # codeUnits (drop 2 cs)
         else (let v = payload (b mod 8) (take 3 cs) - 0x10000
               in (0xD800 + v div 0x400) # (0xDC00 + v mod 0x400) # codeUnits (drop 3 cs)))"

fun unitsLess :: "nat list \<Rightarrow> nat list \<Rightarrow> bool" where
  "unitsLess [] [] = False"
| "unitsLess [] (b # bs) = True"
| "unitsLess (a # as) [] = False"
| "unitsLess (a # as) (b # bs) = (a < b \<or> (a = b \<and> unitsLess as bs))"

definition stringLess :: "string \<Rightarrow> string \<Rightarrow> bool" where
  "stringLess a b = unitsLess (codeUnits a) (codeUnits b)"

fun insertSorted :: "string \<Rightarrow> string list \<Rightarrow> string list" where
  "insertSorted x [] = [x]"
| "insertSorted x (y # ys) =
     (if stringLess x y then x # y # ys else y # insertSorted x ys)"

definition toSorted :: "string list \<Rightarrow> string list" where
  "toSorted xs = foldl (\<lambda>acc x. insertSorted x acc) [] xs"

text \<open>\<open>if (x) lines.push(f(x))\<close> for an optional string \<open>x\<close>.\<close>

fun whenTruthy :: "string option \<Rightarrow> (string \<Rightarrow> 'a list) \<Rightarrow> 'a list" where
  "whenTruthy None f = []"
| "whenTruthy (Some s) f = (if truthy s then f s else [])"

section \<open>The sections of the default path\<close>

text \<open>
  Each \<open>build...Section\<close> function of \<^verbatim>\<open>src/agents/system-prompt.ts\<close> returns an array
  of lines. A parameter object is passed as its properties, in the order of the source.
  \<open>SILENT_REPLY_TOKEN\<close> is imported from a module outside this file and is a parameter.
\<close>

definition buildSkillsSection :: "string option \<Rightarrow> bool \<Rightarrow> string \<Rightarrow> string list" where
  \<open>buildSkillsSection skillsPrompt isMinimal readToolName =
     (if isMinimal then []
      else (case map_option trim skillsPrompt of
              None \<Rightarrow> []
            | Some trimmed \<Rightarrow>
                if \<not> truthy trimmed then []
                else [
                  ''## Skills (mandatory)'',
                  ''Before replying: scan <available_skills> <description> entries.'',
                  ''- If exactly one skill clearly applies: read its SKILL.md at <location> with `'' @ readToolName @ ''`, then follow it.'',
                  ''- If multiple could apply: choose the most specific one, then read/follow it.'',
                  ''- If none clearly apply: do not read any SKILL.md.'',
                  ''Constraints: never read more than one skill up front; only read after selecting.'',
                  trimmed,
                  '''']))\<close>

definition buildMemorySection :: "bool \<Rightarrow> string list \<Rightarrow> string option \<Rightarrow> string list" where
  \<open>buildMemorySection isMinimal availableTools citationsMode =
     (if isMinimal then []
      else if \<not> has availableTools ''memory_search'' \<and> \<not> has availableTools ''memory_get'' then []
      else [
        ''## Memory Recall'',
        ''Before answering anything about prior work, decisions, dates, people, preferences, or todos: run memory_search on MEMORY.md + memory/*.md; then use memory_get to pull only the needed lines. If low confidence after search, say you checked.'']
        @ (if citationsMode = Some ''off''
           then [''Citations are disabled: do not mention file paths or line numbers in replies unless the user explicitly asks.'']
           else [''Citations: include Source: <path#line> when it helps the user verify memory snippets.''])
        @ [''''])\<close>

definition buildUserIdentitySection :: "string option \<Rightarrow> bool \<Rightarrow> string list" where
  \<open>buildUserIdentitySection ownerLine isMinimal =
     (case ownerLine of
        None \<Rightarrow> []
      | Some line \<Rightarrow>
          if \<not> truthy line \<or> isMinimal then []
          else [''## User Identity'', line, ''''])\<close>

definition buildTimeSection :: "string option \<Rightarrow> string list" where
  \<open>buildTimeSection userTimezone =
     whenTruthy userTimezone (\<lambda>tz. [
       ''## Current Date & Time'',
       ''Time zone: '' @ tz,
       ''If you need the current date, time, or day of week, run session_status ('' @ [CHR 0xEF, CHR 0xA3, CHR 0xBF, CHR 0xC3, CHR 0xBC, CHR 0xC3, CHR 0xAC, CHR 0xC3, CHR 0xA4] @ '' session_status).'',
       ''''])\<close>

definition buildReplyTagsSection :: "bool \<Rightarrow> string list" where
  \<open>buildReplyTagsSection isMinimal =
     (if isMinimal then []
      else [
        ''## Reply Tags'',
        ''To request a native reply/quote on supported surfaces, include one tag in your reply:'',
        ''- [[reply_to_current]] replies to the triggering message.'',
        ''- [[reply_to:<id>]] replies to a specific message id when you have it.'',
        ''Whitespace inside the tag is allowed (e.g. [[ reply_to_current ]] / [[ reply_to: 123 ]]).'',
        ''Tags are stripped before sending; support depends on the current channel config.'',
        ''''])\<close>

definition buildMessagingSection ::
  "string \<Rightarrow> bool \<Rightarrow> string list \<Rightarrow> string \<Rightarrow> bool \<Rightarrow> string option \<Rightarrow> string list option
     \<Rightarrow> string list" where
  \<open>buildMessagingSection SILENT_REPLY_TOKEN isMinimal availableTools messageChannelOptions
       inlineButtonsEnabled runtimeChannel messageToolHints =
     (if isMinimal then []
      else [
        ''## Messaging'',
        ''- Reply in current session '' @ [CHR 0xE2, CHR 0x80, CHR 0x9A, CHR 0xC3, CHR 0x9C, CHR 0xC3, CHR 0xAD] @ '' automatically routes to the source channel (Signal, Telegram, etc.)'',
        ''- Cross-session messaging '' @ [CHR 0xE2, CHR 0x80, CHR 0x9A, CHR 0xC3, CHR 0x9C, CHR 0xC3, CHR 0xAD] @ '' use sessions_send(sessionKey, message)'',
        ''- Never use exec/curl for provider messaging; OpenClaw handles all routing internally.'',
        (if has availableTools ''message''
         then join NL (filter truthy ([
                '''',
                ''### message tool'',
                ''- Use `message` for proactive sends + channel actions (polls, reactions, etc.).'',
                ''- For `action=send`, include `to` and `message`.'',
                ''- If multiple channels are configured, pass `channel` ('' @ messageChannelOptions @ '').'',
                ''- If you use `message` (`action=send`) to deliver your user-visible reply, respond with ONLY: '' @ SILENT_REPLY_TOKEN @ '' (avoid duplicate replies).'',
                (if inlineButtonsEnabled
                 then ''- Inline buttons supported. Use `action=send` with `buttons=[[{text,callback_data}]]` (callback_data routes back as a user message).''
                 else (case runtimeChannel of
                         None \<Rightarrow> ''''
                       | Some c \<Rightarrow>
                           if truthy c
                           then ''- Inline buttons not enabled for '' @ c @ ''. If you need them, ask to set '' @ c @ ''.capabilities.inlineButtons ("dm"|"group"|"all"|"allowlist").''
                           else '''')) ]
              @ (case messageToolHints of None \<Rightarrow> [] | Some hints \<Rightarrow> hints)))
         else ''''),
        ''''])\<close>

definition buildVoiceSection :: "bool \<Rightarrow> string option \<Rightarrow> string list" where
  \<open>buildVoiceSection isMinimal ttsHint =
     (if isMinimal then []
      else (case map_option trim ttsHint of
              None \<Rightarrow> []
            | Some hint \<Rightarrow>
                if \<not> truthy hint then []
                else [''## Voice (TTS)'', hint, '''']))\<close>

definition buildDocsSection :: "string option \<Rightarrow> bool \<Rightarrow> string \<Rightarrow> string list" where
  \<open>buildDocsSection docsPathArg isMinimal readToolName =
     (case map_option trim docsPathArg of
        None \<Rightarrow> []
      | Some docsPath \<Rightarrow>
          if \<not> truthy docsPath \<or> isMinimal then []
          else [
            ''## Documentation'',
            ''OpenClaw docs: '' @ docsPath,
            ''Mirror: https://docs.molt.bot'',
            ''Source: https://github.com/moltbot/moltbot'',
            ''Community: https://discord.com/invite/clawd'',
            ''Find new skills: https://clawdhub.com'',
            ''For OpenClaw behavior, commands, config, or architecture: consult local docs first.'',
            ''When diagnosing issues, run `moltbot status` yourself when possible; only ask the user if you lack access (e.g., sandboxed).'',
            ''''])\<close>

definition buildBasicIdentitySection :: "string list" where
  \<open>buildBasicIdentitySection = [''You are a personal assistant running inside OpenClaw.'', '''']\<close>

definition buildToolingSection :: "string list \<Rightarrow> string \<Rightarrow> string \<Rightarrow> bool \<Rightarrow> string list" where
  \<open>buildToolingSection toolLines execToolName processToolName isMinimal =
     (if isMinimal then []
      else
        let toolContent =
          (if length toolLines > 0
           then join NL toolLines
           else join NL [
                  ''Pi lists the standard tools above. This runtime enables:'',
                  ''- grep: search file contents for patterns'',
                  ''- find: find files by glob pattern'',
                  ''- ls: list directory contents'',
                  ''- apply_patch: apply multi-file patches'',
                  ''- '' @ execToolName @ '': run shell commands (supports background via yieldMs/background)'',
                  ''- '' @ processToolName @ '': manage background exec sessions'',
                  ''- browser: control openclaw\'s dedicated browser'',
                  ''- canvas: present/eval/snapshot the Canvas'',
                  ''- nodes: list/describe/notify/camera/screen on paired nodes'',
                  ''- cron: manage cron jobs and wake events (use for reminders; when scheduling a reminder, write the systemEvent text as something that will read like a reminder when it fires, and mention that it is a reminder depending on the time gap between setting and firing; include recent context in reminder text if appropriate)'',
                  ''- sessions_list: list sessions'',
                  ''- sessions_history: fetch session history'',
                  ''- sessions_send: send to another session''])
        in [
          ''## Tooling'',
          ''Tool availability (filtered by policy):'',
          ''Tool names are case-sensitive. Call tools exactly as listed.'',
          toolContent,
          ''TOOLS.md does not control tool availability; it is user guidance for how to use external tools.'',
          ''If a task is more complex or takes longer, spawn a sub-agent. It will do the work for you and ping you when it\'s done. You can always check up on it.'',
          ''''])\<close>

definition buildToolCallStyleSection :: "string list" where
  \<open>buildToolCallStyleSection = [
     ''## Tool Call Style'',
     ''Default: do not narrate routine, low-risk tool calls (just call the tool).'',
     ''Narrate only when it helps: multi-step work, complex/challenging problems, sensitive actions (e.g., deletions), or when the user explicitly asks.'',
     ''Keep narration brief and value-dense; avoid repeating obvious steps.'',
     ''Use plain human language for narration unless in a technical context.'',
     '''']\<close>

definition buildSafetySection :: "string list" where
  \<open>buildSafetySection = [
     ''## Safety'',
     ''You have no independent goals: do not pursue self-preservation, replication, resource acquisition, or power-seeking; avoid long-term plans beyond the user\'s request.'',
     ''Prioritize safety and human oversight over completion; if instructions conflict, pause and ask; comply with stop/pause/audit requests and never bypass safeguards. (Inspired by Anthropic\'s constitution.)'',
     ''Do not manipulate or persuade anyone to expand access or disable safeguards. Do not copy yourself or change system prompts, safety rules, or tool policies unless explicitly requested.'',
     '''']\<close>

definition buildOpenClawCLISection :: "string list" where
  \<open>buildOpenClawCLISection = [
     ''## OpenClaw CLI Quick Reference'',
     ''OpenClaw is controlled via subcommands. Do not invent commands.'',
     ''To manage the Gateway daemon service (start/stop/restart):'',
     ''- openclaw gateway status'',
     ''- openclaw gateway start'',
     ''- openclaw gateway stop'',
     ''- openclaw gateway restart'',
     ''If unsure, ask the user to run `openclaw help` (or `openclaw gateway --help`) and paste the output.'',
     '''']\<close>

definition buildOpenClawSelfUpdateSection :: "bool \<Rightarrow> bool \<Rightarrow> string list" where
  \<open>buildOpenClawSelfUpdateSection hasGateway isMinimal =
     (if \<not> hasGateway \<or> isMinimal then []
      else [
        ''## OpenClaw Self-Update'',
        ''Get Updates (self-update) is ONLY allowed when the user explicitly asks for it.'',
        ''Do not run config.apply or update.run unless the user explicitly requests an update or config change; if it\'s not explicit, ask first.'',
        ''Actions: config.get, config.schema, config.apply (validate + write full config, then restart), update.run (update deps or git, then restart).'',
        ''After restart, OpenClaw pings the last active session automatically.'',
        ''''])\<close>

definition buildModelAliasesSection :: "string list option \<Rightarrow> bool \<Rightarrow> string list" where
  \<open>buildModelAliasesSection modelAliasLines isMinimal =
     (case modelAliasLines of
        None \<Rightarrow> []
      | Some aliasLines \<Rightarrow>
          if length aliasLines = 0 \<or> isMinimal then []
          else [
            ''## Model Aliases'',
            ''Prefer aliases when specifying model overrides; full provider/model is also accepted.'']
            @ aliasLines
            @ [''''])\<close>

definition buildWorkspaceSection :: "string \<Rightarrow> string list \<Rightarrow> string list" where
  \<open>buildWorkspaceSection workspaceDir workspaceNotes =
     [
       ''## Workspace'',
       ''Your working directory is: '' @ workspaceDir,
       ''Treat this directory as the single global workspace for file operations unless explicitly instructed otherwise.'']
     @ workspaceNotes
     @ ['''']\<close>

definition buildReasoningFormatSection :: "string option \<Rightarrow> string list" where
  \<open>buildReasoningFormatSection reasoningHint =
     whenTruthy reasoningHint (\<lambda>hint. [''## Reasoning Format'', hint, ''''])\<close>

definition buildSilentRepliesSection :: "string \<Rightarrow> bool \<Rightarrow> string list" where
  \<open>buildSilentRepliesSection SILENT_REPLY_TOKEN isMinimal =
     (if isMinimal then []
      else [
        ''## Silent Replies'',
        ''When you have nothing to say, respond with ONLY: '' @ SILENT_REPLY_TOKEN,
        '''',
        [CHR 0xE2, CHR 0x80, CHR 0x9A, CHR 0xC3, CHR 0xB6, CHR 0xE2, CHR 0x80, CHR 0xA0, CHR 0xC3, CHR 0x94, CHR 0xE2, CHR 0x88, CHR 0x8F, CHR 0xC3, CHR 0xA8] @ '' Rules:'',
        ''- It must be your ENTIRE message '' @ [CHR 0xE2, CHR 0x80, CHR 0x9A, CHR 0xC3, CHR 0x84, CHR 0xC3, CHR 0xAE] @ '' nothing else'',
        ''- Never append it to an actual response (never include "'' @ SILENT_REPLY_TOKEN @ ''" in real replies)'',
        ''- Never wrap it in markdown or code blocks'',
        '''',
        [CHR 0xE2, CHR 0x80, CHR 0x9A, CHR 0xC3, CHR 0xB9, CHR 0xC3, CHR 0xA5] @ '' Wrong: "Here\'s help... '' @ SILENT_REPLY_TOKEN @ ''"'',
        [CHR 0xE2, CHR 0x80, CHR 0x9A, CHR 0xC3, CHR 0xB9, CHR 0xC3, CHR 0xA5] @ '' Wrong: "'' @ SILENT_REPLY_TOKEN @ ''"'',
        [CHR 0xE2, CHR 0x80, CHR 0x9A, CHR 0xC3, CHR 0xBA, CHR 0xC3, CHR 0x96] @ '' Right: '' @ SILENT_REPLY_TOKEN,
        ''''])\<close>

definition buildHeartbeatsSection :: "string option \<Rightarrow> bool \<Rightarrow> string list" where
  \<open>buildHeartbeatsSection heartbeatPrompt isMinimal =
     (if isMinimal then []
      else
        let promptLine =
          (case heartbeatPrompt of
             None \<Rightarrow> ''Heartbeat prompt: (configured)''
           | Some prompt \<Rightarrow>
               if truthy prompt
               then ''Heartbeat prompt: '' @ prompt
               else ''Heartbeat prompt: (configured)'')
        in [
          ''## Heartbeats'',
          promptLine,
          ''If you receive a heartbeat poll (a user message matching the heartbeat prompt above), and there is nothing that needs attention, reply exactly:'',
          ''HEARTBEAT_OK'',
          ''OpenClaw treats a leading/trailing "HEARTBEAT_OK" as a heartbeat ack (and may discard it).'',
          ''If something needs attention, do NOT include "HEARTBEAT_OK"; reply with the alert text instead.'',
          ''''])\<close>

definition buildRuntimeSection :: "string \<Rightarrow> string \<Rightarrow> string option \<Rightarrow> string list" where
  \<open>buildRuntimeSection runtimeLine reasoningLevel defaultThinkLevel =
     [
       ''## Runtime'',
       runtimeLine,
       ''Reasoning: '' @ reasoningLevel @ '' (hidden unless on/stream). Toggle /reasoning; /status shows Reasoning when enabled.'']\<close>

definition buildExtraSystemPromptSection :: "string option \<Rightarrow> string \<Rightarrow> string list" where
  \<open>buildExtraSystemPromptSection extraSystemPrompt promptMode =
     whenTruthy extraSystemPrompt (\<lambda>extra.
       let contextHeader =
         (if promptMode = ''minimal'' then ''## Subagent Context'' else ''## Group Chat Context'')
       in [contextHeader, extra, ''''])\<close>

section \<open>The nested records of the input\<close>

text \<open>
  \<open>SandboxInfo\<close> is the parameter type of \<open>buildSandboxSection\<close>, in which every property
  is optional; the caller's \<open>sandboxInfo\<close> always carries \<open>enabled\<close>.
\<close>

record SandboxElevated =
  allowed :: "bool option"
  defaultLevel :: "string option"

record SandboxInfo =
  enabled :: "bool option"
  workspaceDir :: "string option"
  workspaceAccess :: "string option"
  agentWorkspaceMount :: "string option"
  browserBridgeUrl :: "string option"
  browserNoVncUrl :: "string option"
  hostBrowserAllowed :: "bool option"
  elevated :: "SandboxElevated option"

record ReactionGuidance =
  level :: string
  channel :: string

record RuntimeInfo =
  agentId :: "string option"
  host :: "string option"
  os :: "string option"
  arch :: "string option"
  node :: "string option"
  model :: "string option"
  defaultModel :: "string option"
  channel :: "string option"
  capabilities :: "string list option"
  repoRoot :: "string option"

record EmbeddedContextFile =
  path :: string
  content :: string

text \<open>A template literal prints an absent value as \<open>undefined\<close>.\<close>

fun interpolate :: "string option \<Rightarrow> string" where
  "interpolate None = ''undefined''"
| "interpolate (Some s) = s"

definition buildSandboxSection :: "SandboxInfo \<Rightarrow> string list" where
  \<open>buildSandboxSection params =
     (if enabled params \<noteq> Some True then []
      else
        let lines =
          [''## Sandbox'',
           ''You are running in a sandboxed runtime (tools execute in Docker).'',
           ''Some tools may be unavailable due to sandbox policy.'',
           ''Sub-agents stay sandboxed (no elevated/host access). Need outside-sandbox read/write? Don\'t spawn; ask first.'']
          @ whenTruthy (SandboxInfo.workspaceDir params) (\<lambda>dir. [''Sandbox workspace: '' @ dir])
          @ whenTruthy (workspaceAccess params) (\<lambda>access.
              [''Agent workspace access: '' @ access @ whenTruthy (agentWorkspaceMount params) (\<lambda>mount. '' (mounted at '' @ mount @ '')'')])
          @ whenTruthy (browserBridgeUrl params) (\<lambda>url. [''Sandbox browser: enabled.''])
          @ whenTruthy (browserNoVncUrl params) (\<lambda>url. [''Sandbox browser observer (noVNC): '' @ url])
          @ (if hostBrowserAllowed params = Some True then [''Host browser control: allowed.'']
             else if hostBrowserAllowed params = Some False then [''Host browser control: blocked.'']
             else [])
          @ (case elevated params of
               None \<Rightarrow> []
             | Some elev \<Rightarrow>
                 if allowed elev = Some True
                 then [''Elevated exec is available for this session.'',
                       ''User can toggle with /elevated on|off|ask|full.'',
                       ''You may also send /elevated on|off|ask|full when needed.'',
                       ''Current elevated level: '' @ interpolate (defaultLevel elev) @ '' (ask runs exec on host with approvals; full auto-approves).'']
                 else [])
        in filter truthy lines @ [''''])\<close>

definition buildReactionsSection :: "ReactionGuidance option \<Rightarrow> string list" where
  \<open>buildReactionsSection reactionGuidance =
     (case reactionGuidance of
        None \<Rightarrow> []
      | Some guidance \<Rightarrow>
          let guidanceText =
            (if level guidance = ''minimal''
             then join NL [
                    ''Reactions are enabled for '' @ ReactionGuidance.channel guidance @ '' in MINIMAL mode.'',
                    ''React ONLY when truly relevant:'',
                    ''- Acknowledge important user requests or confirmations'',
                    ''- Express genuine sentiment (humor, appreciation) sparingly'',
                    ''- Avoid reacting to routine messages or your own replies'',
                    ''Guideline: at most 1 reaction per 5-10 exchanges.'']
             else join NL [
                    ''Reactions are enabled for '' @ ReactionGuidance.channel guidance @ '' in EXTENSIVE mode.'',
                    ''Feel free to react liberally:'',
                    ''- Acknowledge messages with appropriate emojis'',
                    ''- Express sentiment and personality through reactions'',
                    ''- React to interesting content, humor, or notable events'',
                    ''- Use reactions to confirm understanding or agreement'',
                    ''Guideline: react whenever it feels natural.''])
          in [''## Reactions'', guidanceText, ''''])\<close>

text \<open>
  The callback of \<open>contextFiles.some\<close>: \<open>replace(/\\/g, "/")\<close> turns every backslash
  into a slash, \<open>split("/").pop()\<close> is the last segment.
\<close>

definition isSoulFile :: "Engine \<Rightarrow> EmbeddedContextFile \<Rightarrow> bool" where
  \<open>isSoulFile engine file =
     (let normalizedPath = map (\<lambda>c. if c = CHR 0x5C then CHR ''/'' else c) (trim (path file));
          baseName = (case pop (split (CHR ''/'') normalizedPath) of
                        None \<Rightarrow> normalizedPath
                      | Some segment \<Rightarrow> segment)
      in toLowerCase engine baseName = ''soul.md'')\<close>

definition soulLine :: string where
  \<open>soulLine = ''If SOUL.md is present, embody its persona and tone. Avoid stiff, generic replies; follow its guidance unless higher-priority instructions override it.''\<close>

definition buildProjectContextSection ::
  "Engine \<Rightarrow> EmbeddedContextFile list option \<Rightarrow> string list" where
  \<open>buildProjectContextSection engine contextFiles =
     (case contextFiles of
        None \<Rightarrow> []
      | Some files \<Rightarrow>
          if length files = 0 then []
          else
            let hasSoulFile = list_ex (isSoulFile engine) files
            in [''# Project Context'',
                '''',
                ''The following project context files have been loaded:'']
               @ (if hasSoulFile then [soulLine] else [])
               @ ['''']
               @ concat (map (\<lambda>file. [''## '' @ path file, '''', content file, '''']) files))\<close>

text \<open>A token of the runtime line: \<open>x ? `key=${x}` : ""\<close>.\<close>

fun token :: "string \<Rightarrow> string option \<Rightarrow> string" where
  "token key None = ''''"
| "token key (Some v) = (if truthy v then key @ v else '''')"

definition buildRuntimeLine ::
  "RuntimeInfo option \<Rightarrow> string option \<Rightarrow> string list \<Rightarrow> string option \<Rightarrow> string" where
  \<open>buildRuntimeLine runtimeInfo runtimeChannel runtimeCapabilities defaultThinkLevel =
     ''Runtime: '' @ join '' | '' (filter truthy [
       token ''agent='' (Option.bind runtimeInfo agentId),
       token ''host='' (Option.bind runtimeInfo host),
       token ''repo='' (Option.bind runtimeInfo repoRoot),
       (if truthyOpt (Option.bind runtimeInfo os)
        then ''os='' @ interpolate (Option.bind runtimeInfo os)
             @ (if truthyOpt (Option.bind runtimeInfo arch)
                then '' ('' @ interpolate (Option.bind runtimeInfo arch) @ '')''
                else '''')
        else token ''arch='' (Option.bind runtimeInfo arch)),
       token ''node='' (Option.bind runtimeInfo node),
       token ''model='' (Option.bind runtimeInfo model),
       token ''default_model='' (Option.bind runtimeInfo defaultModel),
       token ''channel='' runtimeChannel,
       (if truthyOpt runtimeChannel
        then ''capabilities=''
             @ (if length runtimeCapabilities > 0 then join '','' runtimeCapabilities else ''none'')
        else ''''),
       ''thinking='' @ (case defaultThinkLevel of None \<Rightarrow> ''off'' | Some lvl \<Rightarrow> lvl)])\<close>

section \<open>The parameters, the template context and the environment\<close>

datatype PromptMode = full | minimal | none

fun promptModeString :: "PromptMode \<Rightarrow> string" where
  "promptModeString full = ''full''"
| "promptModeString minimal = ''minimal''"
| "promptModeString none = ''none''"

text \<open>
  The parameter object of \<open>buildAgentSystemPrompt\<close>. An optional property is an
  \<open>option\<close>; \<open>toolSummaries\<close> is the list of the object's entries in the order of
  \<open>Object.entries\<close>. The types \<open>ThinkLevel\<close>, \<open>ReasoningLevel\<close> and
  \<open>MemoryCitationsMode\<close> are string unions declared outside this file: they are strings
  here. \<open>userTime\<close> and \<open>userTimeFormat\<close> are never read by the function.
\<close>

record AgentPromptParams =
  workspaceDir :: string
  defaultThinkLevel :: "string option"
  reasoningLevel :: "string option"
  extraSystemPrompt :: "string option"
  ownerNumbers :: "string list option"
  reasoningTagHint :: "bool option"
  toolNames :: "string list option"
  toolSummaries :: "(string \<times> string) list option"
  modelAliasLines :: "string list option"
  userTimezone :: "string option"
  userTime :: "string option"
  userTimeFormat :: "string option"
  contextFiles :: "EmbeddedContextFile list option"
  skillsPrompt :: "string option"
  heartbeatPrompt :: "string option"
  docsPath :: "string option"
  workspaceNotes :: "string list option"
  ttsHint :: "string option"
  promptMode :: "PromptMode option"
  runtimeInfo :: "RuntimeInfo option"
  messageToolHints :: "string list option"
  sandboxInfo :: "SandboxInfo option"
  reactionGuidance :: "ReactionGuidance option"
  memoryCitationsMode :: "string option"

text \<open>The interface \<open>TemplateContext\<close>; \<open>availableTools\<close> is a \<open>Set\<close> of strings.\<close>

record TemplateContext =
  workspaceDir :: string
  docsPath :: "string option"
  sandboxEnabled :: "bool option"
  sandboxWorkspaceDir :: "string option"
  sandboxAgentWorkspaceMount :: "string option"
  hasGateway :: bool
  isMinimal :: bool
  promptMode :: string
  ownerLine :: "string option"
  userTimezone :: "string option"
  heartbeatPrompt :: "string option"
  reasoningLevel :: "string option"
  defaultThinkLevel :: "string option"
  modelAliasLines :: "string list option"
  workspaceNotes :: "string list"
  extraSystemPrompt :: "string option"
  reactionGuidance :: "ReactionGuidance option"
  runtimeInfo :: "RuntimeInfo option"
  contextFiles :: "EmbeddedContextFile list option"
  messageChannelOptions :: string
  inlineButtonsEnabled :: bool
  runtimeChannel :: "string option"
  ttsHint :: "string option"
  messageToolHints :: "string list option"
  toolList :: string
  execToolName :: string
  processToolName :: string
  readToolName :: string
  availableTools :: "string list"

text \<open>
  What the function takes from outside this file: the engine that runs it, the file
  system (\<open>readFileSync\<close> throws, here it returns the error), \<open>path.join\<close>, the template
  engine (\<open>nunjucks.renderString\<close> throws on a template it cannot render), the constant
  \<open>SILENT_REPLY_TOKEN\<close> and the result of \<open>listDeliverableMessageChannels()\<close>. An \<open>Env\<close>
  is the state of all of these at one invocation.
\<close>

datatype FsError = ENOENT | EACCES | EISDIR | EIO

datatype RenderError = TemplateError string

record Env =
  engine :: Engine
  readFileSync :: "string \<Rightarrow> FsError + string"
  pathJoin :: "string \<Rightarrow> string \<Rightarrow> string"
  renderString :: "string \<Rightarrow> TemplateContext \<Rightarrow> RenderError + string"
  SILENT_REPLY_TOKEN :: string
  listDeliverableMessageChannels :: "string list"

definition readSystemTemplateSync :: "Env \<Rightarrow> string \<Rightarrow> string option" where
  "readSystemTemplateSync env agentDir =
     (let templatePath = pathJoin env agentDir ''SYSTEM.md''
      in case readFileSync env templatePath of
           Inr text \<Rightarrow> Some text
         | Inl err \<Rightarrow> None)"

definition renderTemplate :: "Env \<Rightarrow> string \<Rightarrow> TemplateContext \<Rightarrow> RenderError + string" where
  "renderTemplate env template context = renderString env template context"

section \<open>The tool listing\<close>

definition coreToolSummaries :: "(string \<times> string) list" where
  \<open>coreToolSummaries = [
     (''read'', ''Read file contents''),
     (''write'', ''Create or overwrite files''),
     (''edit'', ''Make precise edits to files''),
     (''apply_patch'', ''Apply multi-file patches''),
     (''grep'', ''Search file contents for patterns''),
     (''find'', ''Find files by glob pattern''),
     (''ls'', ''List directory contents''),
     (''exec'', ''Run shell commands (pty available for TTY-required CLIs)''),
     (''process'', ''Manage background exec sessions''),
     (''web_search'', ''Search the web (Brave API)''),
     (''web_fetch'', ''Fetch and extract readable content from a URL''),
     (''browser'', ''Control web browser''),
     (''canvas'', ''Present/eval/snapshot the Canvas''),
     (''nodes'', ''List/describe/notify/camera/screen on paired nodes''),
     (''cron'', ''Manage cron jobs and wake events (use for reminders; when scheduling a reminder, write the systemEvent text as something that will read like a reminder when it fires, and mention that it is a reminder depending on the time gap between setting and firing; include recent context in reminder text if appropriate)''),
     (''message'', ''Send messages and channel actions''),
     (''gateway'', ''Restart, apply config, or run updates on the running OpenClaw process''),
     (''agents_list'', ''List agent ids allowed for sessions_spawn''),
     (''sessions_list'', ''List other sessions (incl. sub-agents) with filters/last''),
     (''sessions_history'', ''Fetch history for another session/sub-agent''),
     (''sessions_send'', ''Send a message to another session/sub-agent''),
     (''sessions_spawn'', ''Spawn a sub-agent session''),
     (''session_status'', ''Show a /status-equivalent status card (usage + time + Reasoning/Verbose/Elevated); use for model-use questions ('' @ [CHR 0xEF, CHR 0xA3, CHR 0xBF, CHR 0xC3, CHR 0xBC, CHR 0xC3, CHR 0xAC, CHR 0xC3, CHR 0xA4] @ '' session_status); optional per-session model override''),
     (''image'', ''Analyze an image with the configured image model'')]\<close>

text \<open>
  \<open>coreToolSummaries[tool]\<close> is a property lookup on an object literal, which also finds
  what the object inherits from \<open>Object.prototype\<close>. The tool names looked up are in
  lower case, and the inherited properties written in lower case are \<open>constructor\<close> (a
  function) and \<open>__proto__\<close> (an object); the template literal prints them as below.
\<close>

definition coreToolSummary :: "string \<Rightarrow> string option" where
  \<open>coreToolSummary tool =
     (case map_of coreToolSummaries tool of
        Some summary \<Rightarrow> Some summary
      | None \<Rightarrow>
          if tool = ''constructor'' then Some ''function Object() { [native code] }''
          else if tool = ''__proto__'' then Some ''[object Object]''
          else None)\<close>

definition toolOrder :: "string list" where
  \<open>toolOrder = [
     ''read'',
     ''write'',
     ''edit'',
     ''apply_patch'',
     ''grep'',
     ''find'',
     ''ls'',
     ''exec'',
     ''process'',
     ''web_search'',
     ''web_fetch'',
     ''browser'',
     ''canvas'',
     ''nodes'',
     ''cron'',
     ''message'',
     ''gateway'',
     ''agents_list'',
     ''sessions_list'',
     ''sessions_history'',
     ''sessions_send'',
     ''session_status'',
     ''image'']\<close>

text \<open>
  The local constants of \<open>buildAgentSystemPrompt\<close>, each a function of the parameter
  object (and of the environment where it reads it), under the name it has in the source.
\<close>

definition rawToolNames :: "AgentPromptParams \<Rightarrow> string list" where
  "rawToolNames params =
     map trim (case toolNames params of None \<Rightarrow> [] | Some names \<Rightarrow> names)"

definition canonicalToolNames :: "AgentPromptParams \<Rightarrow> string list" where
  "canonicalToolNames params = filter truthy (rawToolNames params)"

definition canonicalByNormalized ::
  "Env \<Rightarrow> AgentPromptParams \<Rightarrow> (string \<rightharpoonup> string)" where
  "canonicalByNormalized env params =
     foldl (\<lambda>m name.
              let normalized = toLowerCase (engine env) name
              in if m normalized = None then m(normalized \<mapsto> name) else m)
           Map.empty (canonicalToolNames params)"

definition resolveToolName :: "Env \<Rightarrow> AgentPromptParams \<Rightarrow> string \<Rightarrow> string" where
  "resolveToolName env params normalized =
     (case canonicalByNormalized env params normalized of
        Some name \<Rightarrow> name
      | None \<Rightarrow> normalized)"

definition normalizedTools :: "Env \<Rightarrow> AgentPromptParams \<Rightarrow> string list" where
  "normalizedTools env params = map (toLowerCase (engine env)) (canonicalToolNames params)"

definition availableTools :: "Env \<Rightarrow> AgentPromptParams \<Rightarrow> string list" where
  "availableTools env params = newSet (normalizedTools env params)"

definition externalToolSummaries ::
  "Env \<Rightarrow> AgentPromptParams \<Rightarrow> (string \<rightharpoonup> string)" where
  "externalToolSummaries env params =
     foldl (\<lambda>m (key, val).
              let normalized = toLowerCase (engine env) (trim key)
              in if \<not> truthy normalized \<or> \<not> truthy (trim val) then m
                 else m(normalized \<mapsto> trim val))
           Map.empty
           (case toolSummaries params of None \<Rightarrow> [] | Some entries \<Rightarrow> entries)"

definition extraTools :: "Env \<Rightarrow> AgentPromptParams \<Rightarrow> string list" where
  "extraTools env params =
     newSet (filter (\<lambda>tool. tool \<notin> set toolOrder) (normalizedTools env params))"

definition enabledTools :: "Env \<Rightarrow> AgentPromptParams \<Rightarrow> string list" where
  "enabledTools env params = filter (\<lambda>tool. has (availableTools env params) tool) toolOrder"

text \<open>The line of one tool: the body of both loops that fill \<open>toolLines\<close>.\<close>

definition toolLine :: "Env \<Rightarrow> AgentPromptParams \<Rightarrow> string \<Rightarrow> string" where
  "toolLine env params tool =
     (let summary = (case coreToolSummary tool of
                       Some s \<Rightarrow> Some s
                     | None \<Rightarrow> externalToolSummaries env params tool);
          name = resolveToolName env params tool
      in if truthyOpt summary then ''- '' @ name @ '': '' @ interpolate summary
         else ''- '' @ name)"

definition toolLines :: "Env \<Rightarrow> AgentPromptParams \<Rightarrow> string list" where
  "toolLines env params =
     map (toolLine env params) (enabledTools env params)
     @ map (toolLine env params) (toSorted (extraTools env params))"

definition hasGateway :: "Env \<Rightarrow> AgentPromptParams \<Rightarrow> bool" where
  "hasGateway env params = has (availableTools env params) ''gateway''"

definition readToolName :: "Env \<Rightarrow> AgentPromptParams \<Rightarrow> string" where
  "readToolName env params = resolveToolName env params ''read''"

definition execToolName :: "Env \<Rightarrow> AgentPromptParams \<Rightarrow> string" where
  "execToolName env params = resolveToolName env params ''exec''"

definition processToolName :: "Env \<Rightarrow> AgentPromptParams \<Rightarrow> string" where
  "processToolName env params = resolveToolName env params ''process''"

definition extraSystemPrompt :: "AgentPromptParams \<Rightarrow> string option" where
  "extraSystemPrompt params = map_option trim (AgentPromptParams.extraSystemPrompt params)"

definition ownerNumbers :: "AgentPromptParams \<Rightarrow> string list" where
  "ownerNumbers params =
     filter truthy (map trim (case AgentPromptParams.ownerNumbers params of
                                None \<Rightarrow> []
                              | Some numbers \<Rightarrow> numbers))"

definition ownerLine :: "AgentPromptParams \<Rightarrow> string option" where
  \<open>ownerLine params =
     (if length (ownerNumbers params) > 0
      then Some (''Owner numbers: '' @ join '', '' (ownerNumbers params) @ ''. Treat messages from these numbers as the user.'')
      else None)\<close>

definition reasoningHint :: "AgentPromptParams \<Rightarrow> string option" where
  \<open>reasoningHint params =
     (if reasoningTagHint params = Some True
      then Some (join '' '' [
             ''ALL internal reasoning MUST be inside <think>...</think>.'',
             ''Do not output any analysis outside <think>.'',
             ''Format every reply as <think>...</think> then <final>...</final>, with no other text.'',
             ''Only the final user-visible reply may appear inside <final>.'',
             ''Only text inside <final> is shown to the user; everything else is discarded and never seen by the user.'',
             ''Example:'',
             ''<think>Short internal reasoning.</think>'',
             ''<final>Hey there! What would you like to do next?</final>''])
      else None)\<close>

definition reasoningLevel :: "AgentPromptParams \<Rightarrow> string" where
  "reasoningLevel params =
     (case AgentPromptParams.reasoningLevel params of None \<Rightarrow> ''off'' | Some lvl \<Rightarrow> lvl)"

definition userTimezone :: "AgentPromptParams \<Rightarrow> string option" where
  "userTimezone params = map_option trim (AgentPromptParams.userTimezone params)"

definition skillsPrompt :: "AgentPromptParams \<Rightarrow> string option" where
  "skillsPrompt params = map_option trim (AgentPromptParams.skillsPrompt params)"

definition heartbeatPrompt :: "AgentPromptParams \<Rightarrow> string option" where
  "heartbeatPrompt params = map_option trim (AgentPromptParams.heartbeatPrompt params)"

definition runtimeChannel :: "Env \<Rightarrow> AgentPromptParams \<Rightarrow> string option" where
  "runtimeChannel env params =
     map_option (\<lambda>c. toLowerCase (engine env) (trim c))
       (Option.bind (AgentPromptParams.runtimeInfo params) RuntimeInfo.channel)"

definition runtimeCapabilities :: "AgentPromptParams \<Rightarrow> string list" where
  "runtimeCapabilities params =
     filter truthy
       (map trim (case Option.bind (AgentPromptParams.runtimeInfo params) capabilities of
                    None \<Rightarrow> []
                  | Some caps \<Rightarrow> caps))"

definition runtimeCapabilitiesLower :: "Env \<Rightarrow> AgentPromptParams \<Rightarrow> string list" where
  "runtimeCapabilitiesLower env params =
     newSet (map (toLowerCase (engine env)) (runtimeCapabilities params))"

definition inlineButtonsEnabled :: "Env \<Rightarrow> AgentPromptParams \<Rightarrow> bool" where
  "inlineButtonsEnabled env params = has (runtimeCapabilitiesLower env params) ''inlinebuttons''"

definition messageChannelOptions :: "Env \<Rightarrow> string" where
  "messageChannelOptions env = join ''|'' (listDeliverableMessageChannels env)"

definition promptMode :: "AgentPromptParams \<Rightarrow> PromptMode" where
  "promptMode params =
     (case AgentPromptParams.promptMode params of None \<Rightarrow> full | Some m \<Rightarrow> m)"

definition isMinimal :: "AgentPromptParams \<Rightarrow> bool" where
  "isMinimal params = (promptMode params = minimal \<or> promptMode params = none)"

definition workspaceNotes :: "AgentPromptParams \<Rightarrow> string list" where
  "workspaceNotes params =
     filter truthy (map trim (case AgentPromptParams.workspaceNotes params of
                                None \<Rightarrow> []
                              | Some notes \<Rightarrow> notes))"

section \<open>The override path\<close>

text \<open>The object \<open>context\<close> handed to \<open>renderTemplate\<close>.\<close>

definition templateContext :: "Env \<Rightarrow> AgentPromptParams \<Rightarrow> TemplateContext" where
  "templateContext env params = \<lparr>
     TemplateContext.workspaceDir = AgentPromptParams.workspaceDir params,
     TemplateContext.docsPath = AgentPromptParams.docsPath params,
     TemplateContext.sandboxEnabled = Option.bind (sandboxInfo params) enabled,
     TemplateContext.sandboxWorkspaceDir = Option.bind (sandboxInfo params) SandboxInfo.workspaceDir,
     TemplateContext.sandboxAgentWorkspaceMount = Option.bind (sandboxInfo params) agentWorkspaceMount,
     TemplateContext.hasGateway = hasGateway env params,
     TemplateContext.isMinimal = isMinimal params,
     TemplateContext.promptMode = promptModeString (promptMode params),
     TemplateContext.ownerLine = ownerLine params,
     TemplateContext.userTimezone = userTimezone params,
     TemplateContext.heartbeatPrompt = heartbeatPrompt params,
     TemplateContext.reasoningLevel = AgentPromptParams.reasoningLevel params,
     TemplateContext.defaultThinkLevel = AgentPromptParams.defaultThinkLevel params,
     TemplateContext.modelAliasLines = AgentPromptParams.modelAliasLines params,
     TemplateContext.workspaceNotes = workspaceNotes params,
     TemplateContext.extraSystemPrompt = AgentPromptParams.extraSystemPrompt params,
     TemplateContext.reactionGuidance = AgentPromptParams.reactionGuidance params,
     TemplateContext.runtimeInfo = AgentPromptParams.runtimeInfo params,
     TemplateContext.contextFiles = AgentPromptParams.contextFiles params,
     TemplateContext.messageChannelOptions = messageChannelOptions env,
     TemplateContext.inlineButtonsEnabled = inlineButtonsEnabled env params,
     TemplateContext.runtimeChannel = runtimeChannel env params,
     TemplateContext.ttsHint = AgentPromptParams.ttsHint params,
     TemplateContext.messageToolHints = AgentPromptParams.messageToolHints params,
     TemplateContext.toolList = join NL (toolLines env params),
     TemplateContext.execToolName = execToolName env params,
     TemplateContext.processToolName = processToolName env params,
     TemplateContext.readToolName = readToolName env params,
     TemplateContext.availableTools = availableTools env params \<rparr>"

section \<open>The default path\<close>

text \<open>
  The array \<open>lines\<close> as it stands at the \<open>return\<close> of the default path: the array
  literal, then the pushes in the order of the source.
\<close>

definition extraContextHeader :: "AgentPromptParams \<Rightarrow> string" where
  "extraContextHeader params =
     (if promptMode params = minimal then ''## Subagent Context'' else ''## Group Chat Context'')"

definition lines :: "Env \<Rightarrow> AgentPromptParams \<Rightarrow> string list" where
  \<open>lines env params =
     [''You are a personal assistant running inside OpenClaw.'',
      '''']
     @ buildToolingSection (toolLines env params) (execToolName env params) (processToolName env params)
         (isMinimal params)
     @ buildToolCallStyleSection
     @ buildSafetySection
     @ buildOpenClawCLISection
     @ buildOpenClawSelfUpdateSection (hasGateway env params) (isMinimal params)
     @ buildModelAliasesSection (AgentPromptParams.modelAliasLines params) (isMinimal params)
     @ buildSkillsSection (skillsPrompt params) (isMinimal params) (readToolName env params)
     @ buildMemorySection (isMinimal params) (availableTools env params) (memoryCitationsMode params)
     @ buildWorkspaceSection (AgentPromptParams.workspaceDir params) (workspaceNotes params)
     @ buildDocsSection (AgentPromptParams.docsPath params) (isMinimal params) (readToolName env params)
     @ buildSandboxSection
         (case sandboxInfo params of
            Some info \<Rightarrow> info
          | None \<Rightarrow> \<lparr> enabled = Some False, SandboxInfo.workspaceDir = None,
                      workspaceAccess = None, agentWorkspaceMount = None,
                      browserBridgeUrl = None, browserNoVncUrl = None,
                      hostBrowserAllowed = None, elevated = None \<rparr>)
     @ buildUserIdentitySection (ownerLine params) (isMinimal params)
     @ buildTimeSection (userTimezone params)
     @ [''## Workspace Files (injected)'',
        ''These user-editable files are loaded by OpenClaw and included below in Project Context.'',
        '''']
     @ buildReplyTagsSection (isMinimal params)
     @ buildMessagingSection (SILENT_REPLY_TOKEN env) (isMinimal params) (availableTools env params)
         (messageChannelOptions env) (inlineButtonsEnabled env params) (runtimeChannel env params)
         (AgentPromptParams.messageToolHints params)
     @ buildVoiceSection (isMinimal params) (AgentPromptParams.ttsHint params)
     @ buildProjectContextSection (engine env) (AgentPromptParams.contextFiles params)
     @ buildExtraSystemPromptSection (extraSystemPrompt params)
         (promptModeString (promptMode params))
     @ whenTruthy (extraSystemPrompt params)
         (\<lambda>extra. [extraContextHeader params, extra, ''''])
     @ buildReactionsSection (AgentPromptParams.reactionGuidance params)
     @ buildReasoningFormatSection (reasoningHint params)
     @ (if \<not> isMinimal params
        then buildSilentRepliesSection (SILENT_REPLY_TOKEN env) (isMinimal params)
        else [])
     @ (if \<not> isMinimal params
        then buildHeartbeatsSection (heartbeatPrompt params) (isMinimal params)
        else [])
     @ buildRuntimeSection
         (buildRuntimeLine (AgentPromptParams.runtimeInfo params) (runtimeChannel env params)
            (runtimeCapabilities params) (AgentPromptParams.defaultThinkLevel params))
         (reasoningLevel params)
         (AgentPromptParams.defaultThinkLevel params)\<close>

section \<open>buildAgentSystemPrompt\<close>

text \<open>
  The result is \<open>Inr\<close> of the returned string, or \<open>Inl\<close> of the error that the template
  engine throws through the function. \<open>if (template)\<close> takes a template that was read
  and is not the empty string; \<open>defaultPath\<close> is what the function does after that
  \<open>if\<close>.
\<close>

definition buildAgentSystemPrompt :: "Env \<Rightarrow> AgentPromptParams \<Rightarrow> RenderError + string" where
  \<open>buildAgentSystemPrompt env params =
     (let template = readSystemTemplateSync env (AgentPromptParams.workspaceDir params);
          defaultPath =
            (if promptMode params = none
             then Inr ''You are a personal assistant running inside OpenClaw.''
             else Inr (join NL (filter truthy (lines env params))))
      in case template of
           Some text \<Rightarrow>
             if truthy text
             then renderTemplate env text (templateContext env params)
             else defaultPath
         | None \<Rightarrow> defaultPath)\<close>

section \<open>Example inputs\<close>

text \<open>
  Environments and parameter objects on which the theorems below are instantiated. The
  workspace of \<open>exampleEnv\<close> has no \<^verbatim>\<open>SYSTEM.md\<close>; in \<open>protectedEnv\<close> reading it fails
  with a permission error; in \<open>templateEnv\<close> it holds a template, in \<open>emptyTemplateEnv\<close>
  it is an empty file. \<open>plainRender\<close> stands for the template engine on a template
  without tags, which it renders as it is. In the example inputs the text that is put in
  lower case (tool names, channels, paths) is ASCII; \<open>asciiEngine\<close> stands for an
  engine on such text. The workspace directory of the examples is \<^verbatim>\<open>/workspace\<close>, for
  which \<open>path.join\<close> puts a slash between the directory and the file name.
\<close>

definition asciiEngine :: Engine where
  "asciiEngine = \<lparr> toLowerCaseUnicode = (\<lambda>s. s) \<rparr>"

definition plainRender :: "string \<Rightarrow> TemplateContext \<Rightarrow> RenderError + string" where
  "plainRender template context = Inr template"

definition exampleEnv :: Env where
  "exampleEnv = \<lparr>
     engine = asciiEngine,
     readFileSync = (\<lambda>file. Inl ENOENT),
     pathJoin = (\<lambda>dir file. if dir = [] then file else dir @ ''/'' @ file),
     renderString = plainRender,
     SILENT_REPLY_TOKEN = ''NO_REPLY'',
     listDeliverableMessageChannels = [''telegram'', ''signal''] \<rparr>"


definition templateEnv :: Env where
  "templateEnv = exampleEnv \<lparr>
     readFileSync := (\<lambda>file. if file = ''/workspace/SYSTEM.md''
                              then Inr ''Custom system prompt'' else Inl ENOENT) \<rparr>"

definition emptyTemplateEnv :: Env where
  "emptyTemplateEnv = exampleEnv \<lparr>
     readFileSync := (\<lambda>file. if file = ''/workspace/SYSTEM.md'' then Inr '''' else Inl ENOENT) \<rparr>"

definition baseParams :: AgentPromptParams where
  "baseParams = \<lparr>
     AgentPromptParams.workspaceDir = ''/workspace'',
     defaultThinkLevel = None,
     reasoningLevel = None,
     extraSystemPrompt = None,
     ownerNumbers = None,
     reasoningTagHint = None,
     toolNames = None,
     toolSummaries = None,
     modelAliasLines = None,
     userTimezone = None,
     userTime = None,
     userTimeFormat = None,
     contextFiles = None,
     skillsPrompt = None,
     heartbeatPrompt = None,
     docsPath = None,
     workspaceNotes = None,
     ttsHint = None,
     promptMode = None,
     runtimeInfo = None,
     messageToolHints = None,
     sandboxInfo = None,
     reactionGuidance = None,
     memoryCitationsMode = None \<rparr>"

definition execReadParams :: AgentPromptParams where
  "execReadParams = baseParams \<lparr> toolNames := Some [''exec'', ''read''] \<rparr>"

text \<open>
  A group chat whose extra prompt has white space around it (a no-break space, spaces and
  a newline), and callers whose extra prompt is a space or a no-break space only.
\<close>

definition groupChatParams :: AgentPromptParams where
  "groupChatParams =
     baseParams \<lparr> AgentPromptParams.extraSystemPrompt :=
                    Some ([CHR 0xC2, CHR 0xA0] @ '' You are in a group chat. '' @ NL) \<rparr>"

definition blankExtraParams :: AgentPromptParams where
  "blankExtraParams = baseParams \<lparr> AgentPromptParams.extraSystemPrompt := Some '' '' \<rparr>"

definition noBreakSpaceExtraParams :: AgentPromptParams where
  "noBreakSpaceExtraParams =
     baseParams \<lparr> AgentPromptParams.extraSystemPrompt := Some [CHR 0xC2, CHR 0xA0] \<rparr>"



text \<open>
  What a caller sees of a result: whether the prompt has a given line (the lines are
  the pieces between newlines) and whether it includes a given text. A call that
  ends in an error has no prompt.
\<close>

fun promptHasLine :: "RenderError + string \<Rightarrow> string \<Rightarrow> bool" where
  "promptHasLine (Inr prompt) line = (line \<in> set (split (CHR 0x0A) prompt))"
| "promptHasLine (Inl err) line = False"

fun promptIncludes :: "RenderError + string \<Rightarrow> string \<Rightarrow> bool" where
  "promptIncludes (Inr prompt) text = includesStr prompt text"
| "promptIncludes (Inl err) text = False"

definition blankToolParams :: AgentPromptParams where
  "blankToolParams = baseParams \<lparr> toolNames := Some ['' '', ''''] \<rparr>"






text \<open>
  The words of the claim about \<^verbatim>\<open>SOUL.md\<close>: the base name of a path is what follows its
  last slash; a path names the soul file when, trimmed and with its backslashes turned
  into slashes, its base name is \<open>soul.md\<close> up to the case of the letters (in lower
  case it is \<open>soul.md\<close>).
\<close>

definition pathBaseName :: "string \<Rightarrow> string" where
  "pathBaseName p = rev (takeWhile (\<lambda>c. c \<noteq> CHR ''/'') (rev p))"

definition namesSoulFile :: "Engine \<Rightarrow> string \<Rightarrow> bool" where
  "namesSoulFile eng p =
     (toLowerCase eng
        (pathBaseName (map (\<lambda>c. if c = CHR 0x5C then CHR ''/'' else c) (trim p)))
      = ''soul.md'')"

definition soulParams :: AgentPromptParams where
  "soulParams = baseParams \<lparr>
     AgentPromptParams.contextFiles :=
       Some [\<lparr> path = ''AGENTS.md'', content = ''Be brief.'' \<rparr>,
             \<lparr> path = '' docs'' @ [CHR 0x5C] @ ''persona/Soul.MD '', content = ''You are a pirate.'' \<rparr>] \<rparr>"

text \<open>A caller whose notes file quotes the persona line of the prompt.\<close>

definition quotedPersonaParams :: AgentPromptParams where
  \<open>quotedPersonaParams = baseParams \<lparr>
     AgentPromptParams.contextFiles :=
       Some [\<lparr> path = ''NOTES.md'',
               content = ''If SOUL.md is present, embody its persona and tone. Avoid stiff, generic replies; follow its guidance unless higher-priority instructions override it.'' \<rparr>] \<rparr>\<close>






section \<open>Arrays of lines\<close>

lemma join_Cons: "ys \<noteq> [] \<Longrightarrow> join sep (x # ys) = x @ sep @ join sep ys"
  by (cases ys) simp_all

lemma join_append: "xs \<noteq> [] \<Longrightarrow> ys \<noteq> [] \<Longrightarrow> join sep (xs @ ys) = join sep xs @ sep @ join sep ys"
proof (induction xs)
  case Nil
  then show ?case by simp
next
  case (Cons x xs)
  show ?case
  proof (cases "xs = []")
    case True
    with Cons.prems show ?thesis by (simp add: join_Cons)
  next
    case False
    with Cons show ?thesis by (simp add: join_Cons)
  qed
qed

lemma startsWith_iff: "startsWith s n \<longleftrightarrow> (\<exists>b. s = n @ b)"
  by (induction s n rule: startsWith.induct) auto

lemma includesStr_iff: "includesStr s n \<longleftrightarrow> (\<exists>a b. s = a @ n @ b)"
proof (induction s)
  case Nil
  then show ?case by auto
next
  case (Cons c cs)
  show ?case
  proof
    assume "includesStr (c # cs) n"
    then consider "startsWith (c # cs) n" | "includesStr cs n" by auto
    then show "\<exists>a b. c # cs = a @ n @ b"
    proof cases
      case 1
      then obtain b where "c # cs = n @ b" by (auto simp: startsWith_iff)
      then have "c # cs = [] @ n @ b" by simp
      then show ?thesis by blast
    next
      case 2
      then obtain a b where "cs = a @ n @ b" using Cons.IH by blast
      then have "c # cs = (c # a) @ n @ b" by simp
      then show ?thesis by blast
    qed
  next
    assume "\<exists>a b. c # cs = a @ n @ b"
    then obtain a b where ab: "c # cs = a @ n @ b" by blast
    show "includesStr (c # cs) n"
    proof (cases a)
      case Nil
      with ab have "startsWith (c # cs) n" by (auto simp: startsWith_iff)
      then show ?thesis by simp
    next
      case (Cons a0 as)
      with ab have "cs = as @ n @ b" by simp
      then have "includesStr cs n" using Cons.IH by blast
      then show ?thesis by simp
    qed
  qed
qed

lemma join_filter_three:
  assumes "filter P a \<noteq> []" and "filter P b \<noteq> []" and "filter P c \<noteq> []"
  shows "join sep (filter P (a @ b @ c))
         = join sep (filter P a) @ sep @ join sep (filter P b) @ sep @ join sep (filter P c)"
proof -
  have "filter P (b @ c) \<noteq> []"
    using assms(2) by simp
  then have "join sep (filter P a @ filter P (b @ c))
             = join sep (filter P a) @ sep @ join sep (filter P (b @ c))"
    using assms(1) by (rule join_append [rotated])
  moreover have "join sep (filter P b @ filter P c)
                 = join sep (filter P b) @ sep @ join sep (filter P c)"
    using assms(2,3) by (rule join_append)
  ultimately show ?thesis by simp
qed

lemma includesStr_member_join:
  assumes "x \<in> set xs" and "includesStr x n"
  shows "includesStr (join sep xs) n"
  using assms
proof (induction xs)
  case Nil
  then show ?case by simp
next
  case (Cons y ys)
  show ?case
  proof (cases "ys = []")
    case True
    with Cons.prems show ?thesis by simp
  next
    case False
    then have j: "join sep (y # ys) = y @ sep @ join sep ys" by (rule join_Cons)
    show ?thesis
    proof (cases "x = y")
      case True
      with Cons.prems(2) obtain a b where "y = a @ n @ b" by (auto simp: includesStr_iff)
      then have "join sep (y # ys) = a @ n @ (b @ sep @ join sep ys)" using j by simp
      then show ?thesis unfolding includesStr_iff by blast
    next
      case False
      with Cons.prems have "x \<in> set ys" by simp
      then have "includesStr (join sep ys) n" using Cons.IH Cons.prems(2) by blast
      then obtain a b where "join sep ys = a @ n @ b" by (auto simp: includesStr_iff)
      then have "join sep (y # ys) = (y @ sep @ a) @ n @ b" using j by simp
      then show ?thesis unfolding includesStr_iff by blast
    qed
  qed
qed

lemma includesStr_append_sep:
  assumes "c \<notin> set n" and "n \<noteq> []" and "includesStr (a @ c # b) n"
  shows "includesStr a n \<or> includesStr b n"
proof -
  from assms(3) obtain p q where eq: "a @ c # b = p @ n @ q"
    by (auto simp: includesStr_iff)
  then consider us where "a = p @ us" "us @ c # b = n @ q"
    | us where "a @ us = p" "c # b = us @ n @ q"
    by (auto simp: append_eq_append_conv2)
  then show ?thesis
  proof cases
    case 1
    from 1(2) consider vs where "us = n @ vs" | vs where "us @ vs = n" "c # b = vs @ q"
      by (auto simp: append_eq_append_conv2)
    then show ?thesis
    proof cases
      case 1
      with \<open>a = p @ us\<close> have "a = p @ n @ vs" by simp
      then show ?thesis unfolding includesStr_iff by blast
    next
      case 2
      show ?thesis
      proof (cases vs)
        case Nil
        with 2 \<open>a = p @ us\<close> have "a = p @ n @ []" by simp
        then show ?thesis unfolding includesStr_iff by blast
      next
        case (Cons v vs')
        with 2 have "c \<in> set n" by auto
        with assms(1) show ?thesis by simp
      qed
    qed
  next
    case 2
    show ?thesis
    proof (cases us)
      case Nil
      with 2(2) assms(2) have "c \<in> set n" by (cases n) auto
      with assms(1) show ?thesis by simp
    next
      case (Cons u us')
      with 2(2) have "b = us' @ n @ q" by simp
      then show ?thesis unfolding includesStr_iff by blast
    qed
  qed
qed

lemma includesStr_join_member:
  assumes "c \<notin> set n" and "n \<noteq> []" and "includesStr (join [c] xs) n"
  shows "\<exists>x \<in> set xs. includesStr x n"
  using assms(3)
proof (induction xs)
  case Nil
  with assms(2) show ?case by simp
next
  case (Cons y ys)
  show ?case
  proof (cases "ys = []")
    case True
    with Cons.prems show ?thesis by simp
  next
    case False
    then have "join [c] (y # ys) = y @ c # join [c] ys" by (simp add: join_Cons)
    with Cons.prems have "includesStr y n \<or> includesStr (join [c] ys) n"
      using includesStr_append_sep [OF assms(1,2)] by simp
    with Cons.IH show ?thesis by auto
  qed
qed

lemma split_not_Nil: "split c s \<noteq> []"
  by (induction s) (auto split: list.splits)

lemma split_append_sep: "split c (a @ c # b) = split c a @ split c b"
proof (induction a)
  case Nil
  then show ?case by simp
next
  case (Cons x a)
  then show ?case
    using split_not_Nil [of c a] by (auto split: list.splits)
qed

lemma split_join:
  "xs \<noteq> [] \<Longrightarrow> split c (join [c] xs) = concat (map (split c) xs)"
proof (induction xs)
  case Nil
  then show ?case by simp
next
  case (Cons y ys)
  show ?case
  proof (cases "ys = []")
    case True
    then show ?thesis by simp
  next
    case False
    then have "join [c] (y # ys) = y @ c # join [c] ys" by (simp add: join_Cons)
    with False Cons.IH show ?thesis by (simp add: split_append_sep)
  qed
qed

lemma includesStr_pair_append:
  assumes "includesStr (a @ b) [c, d]"
  shows "includesStr a [c, d] \<or> includesStr b [c, d] \<or> (a \<noteq> [] \<and> last a = c \<and> b \<noteq> [] \<and> hd b = d)"
proof -
  from assms obtain p q where eq: "a @ b = p @ [c, d] @ q"
    by (auto simp: includesStr_iff)
  then consider us where "a = p @ us" "us @ b = [c, d] @ q"
    | us where "a @ us = p" "b = us @ [c, d] @ q"
    by (auto simp: append_eq_append_conv2)
  then show ?thesis
  proof cases
    case 1
    show ?thesis
    proof (cases us)
      case Nil
      with 1 have "b = [] @ [c, d] @ q" by simp
      then show ?thesis unfolding includesStr_iff by blast
    next
      case (Cons u us')
      note u = this
      show ?thesis
      proof (cases us')
        case Nil
        with u 1 have "a = p @ [c]" "b = d # q" by auto
        then show ?thesis by simp
      next
        case (Cons u' us'')
        with u 1 have "a = p @ [c, d] @ us''" by auto
        then show ?thesis unfolding includesStr_iff by blast
      qed
    qed
  next
    case 2
    then show ?thesis unfolding includesStr_iff by blast
  qed
qed

lemma blank_line_in_join:
  assumes "includesStr (join [c] xs) [c, c]"
  shows "\<exists>x \<in> set xs. x = [] \<or> hd x = c \<or> last x = c \<or> includesStr x [c, c]"
  using assms
proof (induction xs)
  case Nil
  then show ?case by simp
next
  case (Cons y ys)
  show ?case
  proof (cases "ys = []")
    case True
    with Cons.prems show ?thesis by simp
  next
    case False
    then obtain z zs where ys: "ys = z # zs" by (cases ys) auto
    have j: "join [c] (y # ys) = y @ (c # join [c] ys)" using False by (simp add: join_Cons)
    from Cons.prems [unfolded j]
    consider "includesStr y [c, c]" | "includesStr (c # join [c] ys) [c, c]" | "y \<noteq> [] \<and> last y = c"
      using includesStr_pair_append [of y "c # join [c] ys" c c] by auto
    then show ?thesis
    proof cases
      case 1
      then show ?thesis by simp
    next
      case 2
      then consider "startsWith (join [c] ys) [c]" | "includesStr (join [c] ys) [c, c]"
        by auto
      then show ?thesis
      proof cases
        case 1
        have "z = [] \<or> hd z = c"
        proof (cases z)
          case Nil
          then show ?thesis by simp
        next
          case (Cons z0 zr)
          with ys have "join [c] ys = z0 # (zr @ (if zs = [] then [] else c # join [c] zs))"
            by (cases zs) simp_all
          with 1 Cons show ?thesis by simp
        qed
        with ys show ?thesis by auto
      next
        case 2
        with Cons.IH show ?thesis by auto
      qed
    next
      case 3
      then show ?thesis by simp
    qed
  qed
qed

lemma promptHasLine_join:
  "xs \<noteq> [] \<Longrightarrow> promptHasLine (Inr (join NL xs)) line
     = (line \<in> set (concat (map (split (CHR 0x0A)) xs)))"
  by (simp add: NL_def split_join)



lemma blank_free_join:
  assumes "list_all (\<lambda>entry. \<not> (entry = [] \<or> hd entry = CHR 0x0A \<or> last entry = CHR 0x0A
                                 \<or> includesStr entry [CHR 0x0A, CHR 0x0A])) entries"
  shows "\<not> includesStr (join NL entries) (NL @ NL)"
proof
  assume "includesStr (join NL entries) (NL @ NL)"
  then have "includesStr (join [CHR 0x0A] entries) [CHR 0x0A, CHR 0x0A]"
    by (simp add: NL_def)
  then obtain entry where "entry \<in> set entries"
    "entry = [] \<or> hd entry = CHR 0x0A \<or> last entry = CHR 0x0A
     \<or> includesStr entry [CHR 0x0A, CHR 0x0A]"
    using blank_line_in_join by blast
  with assms show False
    by (auto simp: list_all_iff)
qed

lemma split_no_separator: "c \<notin> set s \<Longrightarrow> split c s = [s]"
  by (induction s) auto

lemma last_split: "last (split c s) = rev (takeWhile (\<lambda>x. x \<noteq> c) (rev s))"
proof (cases "c \<in> set s")
  case False
  then have whole: "takeWhile (\<lambda>x. x \<noteq> c) (rev s) = rev s"
    by (auto simp: takeWhile_eq_all_conv)
  show ?thesis
    unfolding whole using False by (simp add: split_no_separator)
next
  case True
  then obtain a b where s: "s = a @ c # b" and b: "c \<notin> set b"
    by (auto dest: split_list_last)
  have "last (split c s) = b"
    using b split_not_Nil [of c a] by (simp add: s split_append_sep split_no_separator)
  moreover have "takeWhile (\<lambda>x. x \<noteq> c) (rev b @ c # rev a) = rev b"
    using b by (auto simp: takeWhile_tail)
  ultimately show ?thesis
    by (simp add: s)
qed

lemma regroup_adjacent:
  assumes "out = before @ sep @ ((j1 @ sep) @ l @ sep @ s @ sep @ j2) @ sep @ after"
  shows "\<exists>before after. Inr out = Inr (before @ l @ sep @ s @ sep @ after)"
proof (intro exI)
  show "Inr out = Inr ((before @ sep @ j1 @ sep) @ l @ sep @ s @ sep @ (j2 @ sep @ after))"
    using assms by simp
qed

lemma absent_from_join:
  assumes "CHR 0x0A \<notin> set n" and "n \<noteq> []"
    and "list_all (\<lambda>entry. \<not> includesStr entry n) xs"
  shows "\<not> includesStr (join NL xs) n"
proof
  assume "includesStr (join NL xs) n"
  then have "includesStr (join [CHR 0x0A] xs) n"
    by (simp add: NL_def)
  then obtain x where "x \<in> set xs" "includesStr x n"
    using includesStr_join_member [OF assms(1,2)] by blast
  with assms(3) show False
    by (simp add: list_all_iff)
qed

section \<open>The pieces of \<open>lines\<close>\<close>

text \<open>
  \<open>lines\<close> is a chain of 26 appended pieces. The lemmas below regroup such a chain
  around the pieces that the theorems are about; they are applied to \<open>lines_def\<close>.
\<close>

lemma join_filter_split:
  assumes "xs = a @ b @ c @ r" and "filter P (a @ b) \<noteq> []" and "filter P c \<noteq> []"
  shows "join sep (filter P xs) = join sep (filter P (a @ b)) @ sep @ join sep (filter P (c @ r))"
proof -
  have parts: "filter P xs = filter P (a @ b) @ filter P (c @ r)"
    using assms(1) by simp
  have rest: "filter P (c @ r) \<noteq> []"
    using assms(3) by simp
  show ?thesis
    unfolding parts by (rule join_append [OF assms(2) rest])
qed

lemma lines_style_safety:
  assumes "xs = s0 @ s1 @ s2 @ s3 @ s4 @ rest"
    and "filter P s0 \<noteq> []" and "filter P (s2 @ s3) \<noteq> []" and "filter P s4 \<noteq> []"
  shows "\<exists>before after. join sep (filter P xs)
           = before @ sep @ join sep (filter P (s2 @ s3)) @ sep @ after"
proof -
  have parts: "xs = (s0 @ s1) @ (s2 @ s3) @ (s4 @ rest)"
    using assms(1) by simp
  have outer: "filter P (s0 @ s1) \<noteq> []" "filter P (s4 @ rest) \<noteq> []"
    using assms(2,4) by simp_all
  show ?thesis
    unfolding parts using join_filter_three [OF outer(1) assms(3) outer(2)] by blast
qed


lemma lines_project_context:
  assumes "xs = s0 @ s1 @ s2 @ s3 @ s4 @ s5 @ s6 @ s7 @ s8 @ s9 @ s10 @ s11 @ s12 @ s13 @ s14
                @ s15 @ s16 @ s17 @ s18 @ rest"
  shows "\<exists>before after. xs = before @ s18 @ after"
proof -
  have "xs = (s0 @ s1 @ s2 @ s3 @ s4 @ s5 @ s6 @ s7 @ s8 @ s9 @ s10 @ s11 @ s12 @ s13 @ s14
              @ s15 @ s16 @ s17) @ s18 @ rest"
    using assms by simp
  then show ?thesis by blast
qed

lemma lines_around_extra:
  assumes "xs = s0 @ s1 @ s2 @ s3 @ s4 @ s5 @ s6 @ s7 @ s8 @ s9 @ s10 @ s11 @ s12 @ s13 @ s14
                @ s15 @ s16 @ s17 @ s18 @ s19 @ s20 @ s21 @ s22 @ s23 @ s24 @ s25"
    and "filter P s0 \<noteq> []" and "filter P s25 \<noteq> []"
  shows "\<exists>before after. xs = before @ (s19 @ s20) @ after
           \<and> filter P before \<noteq> [] \<and> filter P after \<noteq> []"
proof (intro exI conjI)
  show "xs = (s0 @ s1 @ s2 @ s3 @ s4 @ s5 @ s6 @ s7 @ s8 @ s9 @ s10 @ s11 @ s12 @ s13 @ s14
              @ s15 @ s16 @ s17 @ s18) @ (s19 @ s20) @ (s21 @ s22 @ s23 @ s24 @ s25)"
    using assms(1) by simp
  show "filter P (s0 @ s1 @ s2 @ s3 @ s4 @ s5 @ s6 @ s7 @ s8 @ s9 @ s10 @ s11 @ s12 @ s13 @ s14
              @ s15 @ s16 @ s17 @ s18) \<noteq> []"
    using assms(2) by simp
  show "filter P (s21 @ s22 @ s23 @ s24 @ s25) \<noteq> []"
    using assms(3) by simp
qed


section \<open>The template lookup\<close>

lemma readSystemTemplateSync_error:
  "readFileSync env (pathJoin env dir ''SYSTEM.md'') = Inl e
   \<Longrightarrow> readSystemTemplateSync env dir = None"
  by (simp add: readSystemTemplateSync_def)

lemma readSystemTemplateSync_text:
  "readFileSync env (pathJoin env dir ''SYSTEM.md'') = Inr t
   \<Longrightarrow> readSystemTemplateSync env dir = Some t"
  by (simp add: readSystemTemplateSync_def)

section \<open>The override path and the mode \<open>none\<close>\<close>

text \<open>
  Claim C1, as amended. When \<^verbatim>\<open>SYSTEM.md\<close> in the workspace directory is readable and
  its content is not the empty string, \<open>buildAgentSystemPrompt\<close> returns what the
  template engine makes of that content and of the context projection, and nothing
  else: in every prompt mode, \<open>none\<close> included, no line of the default path is added to
  it. (Text of the default path is in the result only where the rendered template
  itself has it.)
\<close>

theorem override_template_rendered:
  assumes "readFileSync env (pathJoin env (AgentPromptParams.workspaceDir params) ''SYSTEM.md'')
           = Inr template"
    and "template \<noteq> []"
  shows "buildAgentSystemPrompt env params
         = renderString env template (templateContext env params)"
  using assms
  by (simp add: buildAgentSystemPrompt_def readSystemTemplateSync_text renderTemplate_def
      truthy_def Let_def)

theorem override_template_rendered_witness:
  "readFileSync templateEnv
     (pathJoin templateEnv
        (AgentPromptParams.workspaceDir (baseParams \<lparr> AgentPromptParams.promptMode := Some none \<rparr>))
        ''SYSTEM.md'')
   = Inr ''Custom system prompt''
   \<and> ''Custom system prompt'' \<noteq> []
   \<and> buildAgentSystemPrompt templateEnv
         (baseParams \<lparr> AgentPromptParams.promptMode := Some none \<rparr>)
       = Inr ''Custom system prompt''"
proof -
  have lookup: "readFileSync templateEnv
       (pathJoin templateEnv
          (AgentPromptParams.workspaceDir (baseParams \<lparr> AgentPromptParams.promptMode := Some none \<rparr>))
          ''SYSTEM.md'')
     = Inr ''Custom system prompt''"
    by (simp add: templateEnv_def exampleEnv_def baseParams_def)
  have nonempty: "''Custom system prompt'' \<noteq> []"
    by simp
  have "renderString templateEnv = plainRender"
    by (simp add: templateEnv_def exampleEnv_def)
  with override_template_rendered [OF lookup nonempty] lookup nonempty show ?thesis
    by (simp add: plainRender_def)
qed

text \<open>
  Claim C1 as stated fails on a \<^verbatim>\<open>SYSTEM.md\<close> that is readable and empty: \<open>if (template)\<close>
  is false for the empty string, so the default path runs. In mode \<open>none\<close> the result is
  the identity sentence of the default path, not the rendered (empty) template.
\<close>

theorem empty_template_counterexample:
  "readFileSync emptyTemplateEnv
     (pathJoin emptyTemplateEnv
        (AgentPromptParams.workspaceDir (baseParams \<lparr> AgentPromptParams.promptMode := Some none \<rparr>))
        ''SYSTEM.md'')
   = Inr ''''
   \<and> renderTemplate emptyTemplateEnv ''''
         (templateContext emptyTemplateEnv (baseParams \<lparr> AgentPromptParams.promptMode := Some none \<rparr>))
       = Inr ''''
   \<and> buildAgentSystemPrompt emptyTemplateEnv
         (baseParams \<lparr> AgentPromptParams.promptMode := Some none \<rparr>)
       = Inr ''You are a personal assistant running inside OpenClaw.''
   \<and> buildAgentSystemPrompt emptyTemplateEnv
         (baseParams \<lparr> AgentPromptParams.promptMode := Some none \<rparr>)
       \<noteq> renderTemplate emptyTemplateEnv ''''
           (templateContext emptyTemplateEnv
              (baseParams \<lparr> AgentPromptParams.promptMode := Some none \<rparr>))"
  by (simp add: buildAgentSystemPrompt_def readSystemTemplateSync_def renderTemplate_def
      emptyTemplateEnv_def exampleEnv_def baseParams_def plainRender_def promptMode_def truthy_def
      Let_def)

text \<open>
  Claim C2. With \<open>promptMode = "none"\<close> and a \<^verbatim>\<open>SYSTEM.md\<close> that cannot be read, the result
  is exactly the identity sentence, whatever the other fields and the environment are.
\<close>

theorem none_mode_identity_sentence:
  assumes "AgentPromptParams.promptMode params = Some none"
    and "readFileSync env (pathJoin env (AgentPromptParams.workspaceDir params) ''SYSTEM.md'')
         = Inl err"
  shows "buildAgentSystemPrompt env params = Inr ''You are a personal assistant running inside OpenClaw.''"
  using assms
  by (simp add: buildAgentSystemPrompt_def readSystemTemplateSync_error promptMode_def Let_def)

theorem none_mode_identity_sentence_witness:
  "AgentPromptParams.promptMode (baseParams \<lparr> AgentPromptParams.promptMode := Some none \<rparr>) = Some none
   \<and> readFileSync exampleEnv
         (pathJoin exampleEnv
            (AgentPromptParams.workspaceDir (baseParams \<lparr> AgentPromptParams.promptMode := Some none \<rparr>))
            ''SYSTEM.md'')
       = Inl ENOENT
   \<and> buildAgentSystemPrompt exampleEnv (baseParams \<lparr> AgentPromptParams.promptMode := Some none \<rparr>)
       = Inr ''You are a personal assistant running inside OpenClaw.''"
proof -
  have mode: "AgentPromptParams.promptMode (baseParams \<lparr> AgentPromptParams.promptMode := Some none \<rparr>)
              = Some none"
    by simp
  have lookup: "readFileSync exampleEnv
       (pathJoin exampleEnv
          (AgentPromptParams.workspaceDir (baseParams \<lparr> AgentPromptParams.promptMode := Some none \<rparr>))
          ''SYSTEM.md'')
     = Inl ENOENT"
    by (simp add: exampleEnv_def)
  from none_mode_identity_sentence [OF mode lookup] mode lookup show ?thesis
    by simp
qed


section \<open>The tool listing in the default path\<close>

lemma default_path:
  assumes "\<not> truthyOpt (readSystemTemplateSync env (AgentPromptParams.workspaceDir params))"
    and "promptMode params \<noteq> none"
  shows "buildAgentSystemPrompt env params = Inr (join NL (filter truthy (lines env params)))"
  using assms
  by (cases "readSystemTemplateSync env (AgentPromptParams.workspaceDir params)")
     (simp_all add: buildAgentSystemPrompt_def Let_def)

lemma exampleEnv_default_path:
  "AgentPromptParams.promptMode params \<noteq> Some none
   \<Longrightarrow> buildAgentSystemPrompt exampleEnv params
       = Inr (join NL (filter truthy (lines exampleEnv params)))"
  by (simp add: buildAgentSystemPrompt_def readSystemTemplateSync_def exampleEnv_def
      promptMode_def Let_def split: option.splits)

lemma lines_truthy: "filter truthy (lines env params) \<noteq> []"
  by (simp add: lines_def truthy_def)

lemma toolCallStyle_truthy: "filter truthy buildToolCallStyleSection \<noteq> []"
  by (simp add: buildToolCallStyleSection_def truthy_def)

lemma lines_head:
  \<open>\<exists>rest. join NL (filter truthy (lines env params))
     = join NL (filter truthy
         ([''You are a personal assistant running inside OpenClaw.'', '''']
          @ buildToolingSection (toolLines env params) (execToolName env params)
              (processToolName env params) (isMinimal params)))
       @ NL @ rest\<close>
proof -
  have identity: "filter truthy ([''You are a personal assistant running inside OpenClaw.'', ''''] @ others) \<noteq> []"
    for others
    by (simp add: truthy_def)
  show ?thesis
    by (rule exI, rule join_filter_split [OF lines_def identity toolCallStyle_truthy])
qed

lemma full_not_minimal: "promptMode params = full \<Longrightarrow> \<not> isMinimal params"
  by (simp add: isMinimal_def)

lemma newSet_Nil: "newSet [] = []" by (simp add: newSet_def)

lemma blank_tools:
  assumes "\<forall>n \<in> set (case toolNames params of None \<Rightarrow> [] | Some names \<Rightarrow> names). trim n = []"
  shows "canonicalToolNames params = []"
  using assms by (auto simp: canonicalToolNames_def rawToolNames_def truthy_def filter_empty_conv)

lemma no_tools_lines: "canonicalToolNames params = [] \<Longrightarrow> toolLines env params = []"
  by (simp add: toolLines_def enabledTools_def extraTools_def availableTools_def normalizedTools_def
      newSet_Nil has_def toSorted_def)

lemma no_tools_resolve: "canonicalToolNames params = [] \<Longrightarrow> resolveToolName env params n = n"
  by (simp add: resolveToolName_def canonicalByNormalized_def)

lemma fallback_head:
  \<open>filter truthy ([''You are a personal assistant running inside OpenClaw.'', ''''] @ buildToolingSection [] ''exec'' ''process'' False)
   = [''You are a personal assistant running inside OpenClaw.'',
      ''## Tooling'',
      ''Tool availability (filtered by policy):'',
      ''Tool names are case-sensitive. Call tools exactly as listed.'',
      join NL [
        ''Pi lists the standard tools above. This runtime enables:'',
        ''- grep: search file contents for patterns'',
        ''- find: find files by glob pattern'',
        ''- ls: list directory contents'',
        ''- apply_patch: apply multi-file patches'',
        ''- '' @ ''exec'' @ '': run shell commands (supports background via yieldMs/background)'',
        ''- '' @ ''process'' @ '': manage background exec sessions'',
        ''- browser: control openclaw\'s dedicated browser'',
        ''- canvas: present/eval/snapshot the Canvas'',
        ''- nodes: list/describe/notify/camera/screen on paired nodes'',
        ''- cron: manage cron jobs and wake events (use for reminders; when scheduling a reminder, write the systemEvent text as something that will read like a reminder when it fires, and mention that it is a reminder depending on the time gap between setting and firing; include recent context in reminder text if appropriate)'',
        ''- sessions_list: list sessions'',
        ''- sessions_history: fetch session history'',
        ''- sessions_send: send to another session''],
      ''TOOLS.md does not control tool availability; it is user guidance for how to use external tools.'',
      ''If a task is more complex or takes longer, spawn a sub-agent. It will do the work for you and ping you when it\'s done. You can always check up on it.'']\<close>
  by (simp add: buildToolingSection_def truthy_def NL_def)

text \<open>
  Claim C10. In the default path with mode \<open>full\<close>, when no tool name is left after
  trimming (the list is absent, empty, or holds blank names only), the Tooling section
  is still emitted, right after the identity sentence, and its body is the hardcoded
  fallback list, with \<open>exec\<close> and \<open>process\<close> under their normalized names.
\<close>

theorem empty_tool_list_fallback:
  assumes "promptMode params = full"
    and "\<forall>name \<in> set (case toolNames params of None \<Rightarrow> [] | Some names \<Rightarrow> names).
           trim name = []"
    and "\<not> truthyOpt (readSystemTemplateSync env (AgentPromptParams.workspaceDir params))"
  shows \<open>\<exists>rest. buildAgentSystemPrompt env params
     = Inr (join NL (
         [''You are a personal assistant running inside OpenClaw.'',
          ''## Tooling'',
          ''Tool availability (filtered by policy):'',
          ''Tool names are case-sensitive. Call tools exactly as listed.'']
         @ [''Pi lists the standard tools above. This runtime enables:'',
            ''- grep: search file contents for patterns'',
            ''- find: find files by glob pattern'',
            ''- ls: list directory contents'',
            ''- apply_patch: apply multi-file patches'',
            ''- '' @ ''exec'' @ '': run shell commands (supports background via yieldMs/background)'',
            ''- '' @ ''process'' @ '': manage background exec sessions'',
            ''- browser: control openclaw\'s dedicated browser'',
            ''- canvas: present/eval/snapshot the Canvas'',
            ''- nodes: list/describe/notify/camera/screen on paired nodes'',
            ''- cron: manage cron jobs and wake events (use for reminders; when scheduling a reminder, write the systemEvent text as something that will read like a reminder when it fires, and mention that it is a reminder depending on the time gap between setting and firing; include recent context in reminder text if appropriate)'',
            ''- sessions_list: list sessions'',
            ''- sessions_history: fetch session history'',
            ''- sessions_send: send to another session'']
         @ [''TOOLS.md does not control tool availability; it is user guidance for how to use external tools.'',
            ''If a task is more complex or takes longer, spawn a sub-agent. It will do the work for you and ping you when it\'s done. You can always check up on it.''])
       @ NL @ rest)\<close>
proof -
  have none: "canonicalToolNames params = []"
    using assms(2) by (rule blank_tools)
  have tools: "toolLines env params = []" "execToolName env params = ''exec''"
    "processToolName env params = ''process''"
    using none by (simp_all add: no_tools_lines no_tools_resolve execToolName_def processToolName_def)
  have mode: "\<not> isMinimal params" "promptMode params \<noteq> none"
    using assms(1) by (simp_all add: full_not_minimal)
  have head: \<open>join NL (filter truthy
         ([''You are a personal assistant running inside OpenClaw.'', '''']
          @ buildToolingSection [] ''exec'' ''process'' False))
     = join NL (
         [''You are a personal assistant running inside OpenClaw.'',
          ''## Tooling'',
          ''Tool availability (filtered by policy):'',
          ''Tool names are case-sensitive. Call tools exactly as listed.'']
         @ [''Pi lists the standard tools above. This runtime enables:'',
            ''- grep: search file contents for patterns'',
            ''- find: find files by glob pattern'',
            ''- ls: list directory contents'',
            ''- apply_patch: apply multi-file patches'',
            ''- '' @ ''exec'' @ '': run shell commands (supports background via yieldMs/background)'',
            ''- '' @ ''process'' @ '': manage background exec sessions'',
            ''- browser: control openclaw\'s dedicated browser'',
            ''- canvas: present/eval/snapshot the Canvas'',
            ''- nodes: list/describe/notify/camera/screen on paired nodes'',
            ''- cron: manage cron jobs and wake events (use for reminders; when scheduling a reminder, write the systemEvent text as something that will read like a reminder when it fires, and mention that it is a reminder depending on the time gap between setting and firing; include recent context in reminder text if appropriate)'',
            ''- sessions_list: list sessions'',
            ''- sessions_history: fetch session history'',
            ''- sessions_send: send to another session'']
         @ [''TOOLS.md does not control tool availability; it is user guidance for how to use external tools.'',
            ''If a task is more complex or takes longer, spawn a sub-agent. It will do the work for you and ping you when it\'s done. You can always check up on it.''])\<close>
    by (simp only: fallback_head) (simp add: NL_def)
  obtain rest where "join NL (filter truthy (lines env params))
     = join NL (filter truthy
         ([''You are a personal assistant running inside OpenClaw.'', '''']
          @ buildToolingSection [] ''exec'' ''process'' False))
       @ NL @ rest"
    using lines_head [of env params] tools mode by auto
  then show ?thesis
    unfolding head default_path [OF assms(3) mode(2)] by blast
qed

theorem empty_tool_list_fallback_witness:
  \<open>promptMode blankToolParams = full
   \<and> toolNames blankToolParams = Some ['' '', '''']
   \<and> trim '' '' = [] \<and> trim '''' = []
   \<and> \<not> truthyOpt (readSystemTemplateSync exampleEnv
         (AgentPromptParams.workspaceDir blankToolParams))
   \<and> (\<exists>rest. buildAgentSystemPrompt exampleEnv blankToolParams
         = Inr (join NL (
             [''You are a personal assistant running inside OpenClaw.'',
              ''## Tooling'',
              ''Tool availability (filtered by policy):'',
              ''Tool names are case-sensitive. Call tools exactly as listed.'']
             @ [''Pi lists the standard tools above. This runtime enables:'',
                ''- grep: search file contents for patterns'',
                ''- find: find files by glob pattern'',
                ''- ls: list directory contents'',
                ''- apply_patch: apply multi-file patches'',
                ''- '' @ ''exec'' @ '': run shell commands (supports background via yieldMs/background)'',
                ''- '' @ ''process'' @ '': manage background exec sessions'',
                ''- browser: control openclaw\'s dedicated browser'',
                ''- canvas: present/eval/snapshot the Canvas'',
                ''- nodes: list/describe/notify/camera/screen on paired nodes'',
                ''- cron: manage cron jobs and wake events (use for reminders; when scheduling a reminder, write the systemEvent text as something that will read like a reminder when it fires, and mention that it is a reminder depending on the time gap between setting and firing; include recent context in reminder text if appropriate)'',
                ''- sessions_list: list sessions'',
                ''- sessions_history: fetch session history'',
                ''- sessions_send: send to another session'']
             @ [''TOOLS.md does not control tool availability; it is user guidance for how to use external tools.'',
                ''If a task is more complex or takes longer, spawn a sub-agent. It will do the work for you and ping you when it\'s done. You can always check up on it.''])
           @ NL @ rest))\<close>
proof -
  have mode: "promptMode blankToolParams = full"
    by (simp add: promptMode_def blankToolParams_def baseParams_def)
  have names: "toolNames blankToolParams = Some ['' '', '''']"
    by (simp add: blankToolParams_def)
  have trimmed: "trim '' '' = []" "trim '''' = []"
    by code_simp+
  have blank: "\<forall>name \<in> set (case toolNames blankToolParams of
                               None \<Rightarrow> [] | Some names \<Rightarrow> names).
                 trim name = []"
    using trimmed by (simp add: names)
  have lookup: "\<not> truthyOpt (readSystemTemplateSync exampleEnv
                  (AgentPromptParams.workspaceDir blankToolParams))"
    by (simp add: readSystemTemplateSync_def exampleEnv_def)
  from empty_tool_list_fallback [OF mode blank lookup] mode names trimmed lookup
  show ?thesis by blast
qed

lemma exec_read_lines:
  assumes "toolNames params = Some [''exec'', ''read'']"
  shows \<open>toolLines env params = [
     ''- read: Read file contents'',
     ''- exec: Run shell commands (pty available for TTY-required CLIs)'']\<close>
proof -
  have trimmed: "trim ''exec'' = ''exec''" "trim ''read'' = ''read''"
    by code_simp+
  have lower: "toLowerCase (engine env) ''exec'' = ''exec''"
    "toLowerCase (engine env) ''read'' = ''read''"
    by (simp_all add: toLowerCase_def isAscii_def toLowerCaseChar_def)
  show ?thesis
    using assms
    by (simp add: toolLines_def enabledTools_def availableTools_def normalizedTools_def
        canonicalToolNames_def rawToolNames_def trimmed lower truthy_def
        newSet_def has_def toolOrder_def extraTools_def toSorted_def toolLine_def
        coreToolSummary_def coreToolSummaries_def resolveToolName_def canonicalByNormalized_def
        Let_def)
qed

lemma exec_read_head:
  \<open>join NL (filter truthy
      ([''You are a personal assistant running inside OpenClaw.'', '''']
       @ buildToolingSection
           [''- read: Read file contents'',
            ''- exec: Run shell commands (pty available for TTY-required CLIs)'']
           execName processName False))
   = join NL
       [''You are a personal assistant running inside OpenClaw.'',
        ''## Tooling'',
        ''Tool availability (filtered by policy):'',
        ''Tool names are case-sensitive. Call tools exactly as listed.'',
        ''- read: Read file contents'',
        ''- exec: Run shell commands (pty available for TTY-required CLIs)'',
        ''TOOLS.md does not control tool availability; it is user guidance for how to use external tools.'',
        ''If a task is more complex or takes longer, spawn a sub-agent. It will do the work for you and ping you when it\'s done. You can always check up on it.'']\<close>
  by (simp add: buildToolingSection_def truthy_def NL_def)

text \<open>
  Claim C4, as amended. In the default path with mode \<open>full\<close> and the tool-name list
  \<open>["exec","read"]\<close>, the Tooling section lists \<open>read\<close> before \<open>exec\<close> (the canonical
  order), each as \<open>- <name>: <description>\<close> with the built-in description of
  \<open>coreToolSummaries\<close>, whatever descriptions the caller supplies: the line
  \<open>- read: Read file contents\<close> comes right before the line of \<open>exec\<close>.
\<close>

theorem exec_read_listed_with_descriptions:
  assumes "promptMode params = full"
    and "toolNames params = Some [''exec'', ''read'']"
    and "\<not> truthyOpt (readSystemTemplateSync env (AgentPromptParams.workspaceDir params))"
  shows \<open>\<exists>rest. buildAgentSystemPrompt env params
     = Inr (join NL
         [''You are a personal assistant running inside OpenClaw.'',
          ''## Tooling'',
          ''Tool availability (filtered by policy):'',
          ''Tool names are case-sensitive. Call tools exactly as listed.'',
          ''- read: Read file contents'',
          ''- exec: Run shell commands (pty available for TTY-required CLIs)'',
          ''TOOLS.md does not control tool availability; it is user guidance for how to use external tools.'',
          ''If a task is more complex or takes longer, spawn a sub-agent. It will do the work for you and ping you when it\'s done. You can always check up on it.'']
       @ NL @ rest)\<close>
proof -
  have mode: "\<not> isMinimal params" "promptMode params \<noteq> none"
    using assms(1) by (simp_all add: full_not_minimal)
  obtain rest where "join NL (filter truthy (lines env params))
     = join NL (filter truthy
         ([''You are a personal assistant running inside OpenClaw.'', '''']
          @ buildToolingSection
              [''- read: Read file contents'',
               ''- exec: Run shell commands (pty available for TTY-required CLIs)'']
              (execToolName env params) (processToolName env params) False))
       @ NL @ rest"
    using lines_head [of env params] exec_read_lines [OF assms(2)] mode by auto
  then show ?thesis
    unfolding exec_read_head default_path [OF assms(3) mode(2)] by blast
qed

theorem exec_read_listed_with_descriptions_witness:
  \<open>promptMode execReadParams = full
   \<and> toolNames execReadParams = Some [''exec'', ''read'']
   \<and> \<not> truthyOpt (readSystemTemplateSync exampleEnv (AgentPromptParams.workspaceDir execReadParams))
   \<and> (\<exists>rest. buildAgentSystemPrompt exampleEnv execReadParams
         = Inr (join NL
             [''You are a personal assistant running inside OpenClaw.'',
              ''## Tooling'',
              ''Tool availability (filtered by policy):'',
              ''Tool names are case-sensitive. Call tools exactly as listed.'',
              ''- read: Read file contents'',
              ''- exec: Run shell commands (pty available for TTY-required CLIs)'',
              ''TOOLS.md does not control tool availability; it is user guidance for how to use external tools.'',
              ''If a task is more complex or takes longer, spawn a sub-agent. It will do the work for you and ping you when it\'s done. You can always check up on it.'']
           @ NL @ rest))\<close>
proof -
  have mode: "promptMode execReadParams = full"
    by (simp add: promptMode_def execReadParams_def baseParams_def)
  have names: "toolNames execReadParams = Some [''exec'', ''read'']"
    by (simp add: execReadParams_def)
  have lookup: "\<not> truthyOpt (readSystemTemplateSync exampleEnv
                  (AgentPromptParams.workspaceDir execReadParams))"
    by (simp add: readSystemTemplateSync_def exampleEnv_def)
  from exec_read_listed_with_descriptions [OF mode names lookup] mode names lookup
  show ?thesis by blast
qed

text \<open>
  Claim C4 as stated fails: the lines of \<open>read\<close> and \<open>exec\<close> carry their built-in
  descriptions, and no line of the prompt is the bare \<open>- read\<close> or the bare \<open>- exec\<close>.
\<close>

theorem bare_tool_lines_counterexample:
  "\<not> promptHasLine (buildAgentSystemPrompt exampleEnv execReadParams) ''- read''
   \<and> \<not> promptHasLine (buildAgentSystemPrompt exampleEnv execReadParams) ''- exec''"
proof -
  have "AgentPromptParams.promptMode execReadParams \<noteq> Some none"
    by (simp add: execReadParams_def baseParams_def)
  then have out: "buildAgentSystemPrompt exampleEnv execReadParams
                  = Inr (join NL (filter truthy (lines exampleEnv execReadParams)))"
    by (rule exampleEnv_default_path)
  have "''- read'' \<notin> set (concat (map (split (CHR 0x0A))
          (filter truthy (lines exampleEnv execReadParams))))"
    by code_simp
  moreover have "''- exec'' \<notin> set (concat (map (split (CHR 0x0A))
          (filter truthy (lines exampleEnv execReadParams))))"
    by code_simp
  ultimately show ?thesis
    unfolding out promptHasLine_join [OF lines_truthy] by blast
qed


section \<open>The caller-supplied extra context\<close>

lemma identity_truthy:
  \<open>filter truthy [''You are a personal assistant running inside OpenClaw.'', ''''] \<noteq> []\<close>
  by (simp add: truthy_def)

lemma runtime_truthy:
  "filter truthy (buildRuntimeSection runtimeLine lvl think) = buildRuntimeSection runtimeLine lvl think"
  if "runtimeLine \<noteq> []"
  using that by (simp add: buildRuntimeSection_def truthy_def)

lemma buildRuntimeLine_truthy:
  "buildRuntimeLine info chan caps think \<noteq> []"
  by (simp add: buildRuntimeLine_def)

lemma runtime_section_truthy:
  "filter truthy (buildRuntimeSection (buildRuntimeLine info chan caps think) lvl think') \<noteq> []"
  by (simp add: runtime_truthy buildRuntimeLine_truthy) (simp add: buildRuntimeSection_def)

lemma promptModeString_minimal: "(promptModeString m = ''minimal'') = (m = minimal)"
  by (cases m) simp_all

text \<open>
  Claim C8, as amended. In the default path (mode \<open>full\<close> or \<open>minimal\<close>), when the
  caller supplies an \<open>extraSystemPrompt\<close> that is not empty after \<open>trim()\<close>, that is, one
  with a character that is not white space, the block made of the header
  (\<open>## Subagent Context\<close> in mode \<open>minimal\<close>, \<open>## Group Chat Context\<close> otherwise) and of the
  trimmed text is in the output twice, one copy right after the other: the first from
  \<open>buildExtraSystemPromptSection\<close>, the second from the push that follows the array
  literal.
\<close>

theorem extra_context_block_twice:
  assumes "\<not> truthyOpt (readSystemTemplateSync env (AgentPromptParams.workspaceDir params))"
    and "promptMode params \<noteq> none"
    and "AgentPromptParams.extraSystemPrompt params = Some supplied"
    and "trim supplied \<noteq> []"
  shows "\<exists>before after. buildAgentSystemPrompt env params
     = Inr (before
            @ NL @ (if promptMode params = minimal
                    then ''## Subagent Context'' else ''## Group Chat Context'')
            @ NL @ trim supplied
            @ NL @ (if promptMode params = minimal
                    then ''## Subagent Context'' else ''## Group Chat Context'')
            @ NL @ trim supplied
            @ NL @ after)"
proof -
  define header where "header = (if promptMode params = minimal
                                 then ''## Subagent Context'' else ''## Group Chat Context'')"
  define extra where "extra = trim supplied"
  have hdr: "header \<noteq> []"
    by (simp add: header_def)
  have trimmed: "extraSystemPrompt params = Some extra"
    using assms(3) by (simp add: extraSystemPrompt_def extra_def)
  have nonempty: "extra \<noteq> []"
    using assms(4) by (simp add: extra_def)
  have sect: "buildExtraSystemPromptSection (extraSystemPrompt params)
                (promptModeString (promptMode params))
              = [header, extra, '''']"
    using trimmed nonempty by (simp add: buildExtraSystemPromptSection_def truthy_def
        promptModeString_minimal header_def)
  have pushed: "whenTruthy (extraSystemPrompt params)
                  (\<lambda>extra. [extraContextHeader params, extra, ''''])
                = [header, extra, '''']"
    using trimmed nonempty by (simp add: truthy_def extraContextHeader_def header_def)
  obtain before after where parts:
    "lines env params = before @ ([header, extra, ''''] @ [header, extra, '''']) @ after"
    "filter truthy before \<noteq> []" "filter truthy after \<noteq> []"
    using lines_around_extra [OF lines_def [of env params] identity_truthy
        runtime_section_truthy]
    unfolding sect pushed by blast
  have block: "filter truthy ([header, extra, ''''] @ [header, extra, ''''])
               = [header, extra, header, extra]"
    using nonempty hdr by (simp add: truthy_def)
  then have twice: "filter truthy ([header, extra, ''''] @ [header, extra, '''']) \<noteq> []"
    by simp
  have four: "join NL [a, b, c, d] = a @ NL @ b @ NL @ c @ NL @ d" for a b c d
    by simp
  have "join NL (filter truthy (lines env params))
        = join NL (filter truthy before)
          @ NL @ join NL (filter truthy ([header, extra, ''''] @ [header, extra, '''']))
          @ NL @ join NL (filter truthy after)"
    unfolding parts(1) by (rule join_filter_three [OF parts(2) twice parts(3)])
  then have "buildAgentSystemPrompt env params
        = Inr (join NL (filter truthy before)
               @ NL @ header @ NL @ extra @ NL @ header @ NL @ extra
               @ NL @ join NL (filter truthy after))"
    unfolding block four default_path [OF assms(1,2)] by simp
  then show ?thesis
    unfolding header_def extra_def by blast
qed

theorem extra_context_block_twice_witness:
  "\<not> truthyOpt (readSystemTemplateSync exampleEnv (AgentPromptParams.workspaceDir groupChatParams))
   \<and> promptMode groupChatParams \<noteq> none
   \<and> AgentPromptParams.extraSystemPrompt groupChatParams
       = Some ([CHR 0xC2, CHR 0xA0] @ '' You are in a group chat. '' @ NL)
   \<and> trim ([CHR 0xC2, CHR 0xA0] @ '' You are in a group chat. '' @ NL) = ''You are in a group chat.''
   \<and> (\<exists>before after. buildAgentSystemPrompt exampleEnv groupChatParams
         = Inr (before
                @ NL @ ''## Group Chat Context''
                @ NL @ ''You are in a group chat.''
                @ NL @ ''## Group Chat Context''
                @ NL @ ''You are in a group chat.''
                @ NL @ after))"
proof -
  have lookup: "\<not> truthyOpt (readSystemTemplateSync exampleEnv
                  (AgentPromptParams.workspaceDir groupChatParams))"
    by (simp add: readSystemTemplateSync_def exampleEnv_def)
  have mode: "promptMode groupChatParams \<noteq> none" "promptMode groupChatParams \<noteq> minimal"
    by (simp_all add: promptMode_def groupChatParams_def baseParams_def)
  have raw: "AgentPromptParams.extraSystemPrompt groupChatParams
             = Some ([CHR 0xC2, CHR 0xA0] @ '' You are in a group chat. '' @ NL)"
    by (simp add: groupChatParams_def)
  have trimmed: "trim ([CHR 0xC2, CHR 0xA0] @ '' You are in a group chat. '' @ NL)
                 = ''You are in a group chat.''"
    by code_simp
  have nonempty: "trim ([CHR 0xC2, CHR 0xA0] @ '' You are in a group chat. '' @ NL) \<noteq> []"
    unfolding trimmed by simp
  from extra_context_block_twice [OF lookup mode(1) raw nonempty]
  show ?thesis
    using lookup mode raw trimmed by simp
qed

text \<open>
  Claim C8 as stated fails on an \<open>extraSystemPrompt\<close> that is not empty but blank: the
  function trims the text before it tests it, so a text of white space only (a space, or
  the no-break space U+00A0) adds no block, and the prompt has neither header.
\<close>

theorem blank_extra_counterexample:
  "AgentPromptParams.extraSystemPrompt blankExtraParams = Some '' ''
   \<and> '' '' \<noteq> []
   \<and> \<not> promptIncludes (buildAgentSystemPrompt exampleEnv blankExtraParams) ''## Group Chat Context''
   \<and> \<not> promptIncludes (buildAgentSystemPrompt exampleEnv blankExtraParams) ''## Subagent Context''
   \<and> AgentPromptParams.extraSystemPrompt noBreakSpaceExtraParams = Some [CHR 0xC2, CHR 0xA0]
   \<and> \<not> promptIncludes (buildAgentSystemPrompt exampleEnv noBreakSpaceExtraParams)
         ''## Group Chat Context''"
proof -
  have raw: "AgentPromptParams.extraSystemPrompt blankExtraParams = Some '' ''"
    "AgentPromptParams.extraSystemPrompt noBreakSpaceExtraParams = Some [CHR 0xC2, CHR 0xA0]"
    by (simp_all add: blankExtraParams_def noBreakSpaceExtraParams_def)
  have "AgentPromptParams.promptMode blankExtraParams \<noteq> Some none"
    "AgentPromptParams.promptMode noBreakSpaceExtraParams \<noteq> Some none"
    by (simp_all add: blankExtraParams_def noBreakSpaceExtraParams_def baseParams_def)
  then have out: "buildAgentSystemPrompt exampleEnv blankExtraParams
                  = Inr (join NL (filter truthy (lines exampleEnv blankExtraParams)))"
    "buildAgentSystemPrompt exampleEnv noBreakSpaceExtraParams
     = Inr (join NL (filter truthy (lines exampleEnv noBreakSpaceExtraParams)))"
    by (simp_all add: exampleEnv_default_path)
  have "list_all (\<lambda>entry. \<not> includesStr entry ''## Group Chat Context'')
          (filter truthy (lines exampleEnv blankExtraParams))"
    by code_simp
  then have group: "\<not> includesStr (join NL (filter truthy (lines exampleEnv blankExtraParams)))
                        ''## Group Chat Context''"
    by (intro absent_from_join) simp_all
  have "list_all (\<lambda>entry. \<not> includesStr entry ''## Subagent Context'')
          (filter truthy (lines exampleEnv blankExtraParams))"
    by code_simp
  then have subagent: "\<not> includesStr (join NL (filter truthy (lines exampleEnv blankExtraParams)))
                           ''## Subagent Context''"
    by (intro absent_from_join) simp_all
  have "list_all (\<lambda>entry. \<not> includesStr entry ''## Group Chat Context'')
          (filter truthy (lines exampleEnv noBreakSpaceExtraParams))"
    by code_simp
  then have nbsp: "\<not> includesStr (join NL (filter truthy (lines exampleEnv noBreakSpaceExtraParams)))
                       ''## Group Chat Context''"
    by (intro absent_from_join) simp_all
  show ?thesis
    unfolding out using raw group subagent nbsp by simp
qed


section \<open>Separators between sections\<close>

lemma style_safety_joined:
  \<open>join NL (filter truthy (buildToolCallStyleSection @ buildSafetySection))
   = (join NL [
        ''## Tool Call Style'',
        ''Default: do not narrate routine, low-risk tool calls (just call the tool).'',
        ''Narrate only when it helps: multi-step work, complex/challenging problems, sensitive actions (e.g., deletions), or when the user explicitly asks.'',
        ''Keep narration brief and value-dense; avoid repeating obvious steps.''] @ NL)
     @ ''Use plain human language for narration unless in a technical context.''
     @ NL @ ''## Safety'' @ NL
     @ join NL [
        ''You have no independent goals: do not pursue self-preservation, replication, resource acquisition, or power-seeking; avoid long-term plans beyond the user\'s request.'',
        ''Prioritize safety and human oversight over completion; if instructions conflict, pause and ask; comply with stop/pause/audit requests and never bypass safeguards. (Inspired by Anthropic\'s constitution.)'',
        ''Do not manipulate or persuade anyone to expand access or disable safeguards. Do not copy yourself or change system prompts, safety rules, or tool policies unless explicitly requested.'']\<close>
  by (simp add: buildToolCallStyleSection_def buildSafetySection_def truthy_def NL_def)

lemma style_safety_truthy:
  "filter truthy (buildToolCallStyleSection @ buildSafetySection) \<noteq> []"
  by (simp add: buildToolCallStyleSection_def truthy_def)

lemma cli_truthy: "filter truthy buildOpenClawCLISection \<noteq> []"
  by (simp add: buildOpenClawCLISection_def truthy_def)

text \<open>
  Claim C6, as amended. In the default path the output is the array of lines without
  its empty entries, joined by single newlines. The empty string that ends each section
  is filtered out with the rest, so consecutive sections are separated by one newline
  and no blank line (the last line of Tool Call Style is followed at once by the header
  of Safety), and an omitted or empty section leaves no gap. A blank line is in the
  output only where one entry has it in its own text: an entry that begins or ends
  with a newline or that includes two newlines in a row.
\<close>

theorem sections_joined_by_single_newlines:
  assumes "\<not> truthyOpt (readSystemTemplateSync env (AgentPromptParams.workspaceDir params))"
    and "promptMode params \<noteq> none"
  shows \<open>(\<exists>before after. buildAgentSystemPrompt env params
            = Inr (before
                   @ ''Use plain human language for narration unless in a technical context.''
                   @ NL @ ''## Safety'' @ NL @ after))
         \<and> (promptIncludes (buildAgentSystemPrompt env params) (NL @ NL)
              \<longrightarrow> (\<exists>entry \<in> set (lines env params).
                     entry \<noteq> []
                     \<and> (hd entry = CHR 0x0A \<or> last entry = CHR 0x0A
                          \<or> includesStr entry (NL @ NL))))\<close>
proof -
  have out: "buildAgentSystemPrompt env params = Inr (join NL (filter truthy (lines env params)))"
    using assms by (rule default_path)
  obtain before after where "join NL (filter truthy (lines env params))
      = before @ NL @ join NL (filter truthy (buildToolCallStyleSection @ buildSafetySection))
        @ NL @ after"
    using lines_style_safety [OF lines_def [of env params] identity_truthy style_safety_truthy
        cli_truthy]
    by blast
  then have adjacent: \<open>\<exists>before after. buildAgentSystemPrompt env params
            = Inr (before
                   @ ''Use plain human language for narration unless in a technical context.''
                   @ NL @ ''## Safety'' @ NL @ after)\<close>
    unfolding style_safety_joined out by (rule regroup_adjacent)
  have blank: "\<exists>entry \<in> set (lines env params).
                 entry \<noteq> []
                 \<and> (hd entry = CHR 0x0A \<or> last entry = CHR 0x0A \<or> includesStr entry (NL @ NL))"
    if "promptIncludes (buildAgentSystemPrompt env params) (NL @ NL)"
  proof -
    from that have "includesStr (join [CHR 0x0A] (filter truthy (lines env params)))
                      [CHR 0x0A, CHR 0x0A]"
      unfolding out by (simp add: NL_def)
    then obtain entry where "entry \<in> set (filter truthy (lines env params))"
      "entry = [] \<or> hd entry = CHR 0x0A \<or> last entry = CHR 0x0A
       \<or> includesStr entry [CHR 0x0A, CHR 0x0A]"
      using blank_line_in_join by blast
    then show ?thesis
      by (auto simp: truthy_def NL_def)
  qed
  from adjacent blank show ?thesis by blast
qed

theorem sections_joined_by_single_newlines_witness:
  \<open>\<not> truthyOpt (readSystemTemplateSync exampleEnv (AgentPromptParams.workspaceDir baseParams))
   \<and> promptMode baseParams \<noteq> none
   \<and> (\<exists>before after. buildAgentSystemPrompt exampleEnv baseParams
         = Inr (before
                @ ''Use plain human language for narration unless in a technical context.''
                @ NL @ ''## Safety'' @ NL @ after))\<close>
proof -
  have lookup: "\<not> truthyOpt (readSystemTemplateSync exampleEnv
                  (AgentPromptParams.workspaceDir baseParams))"
    by (simp add: readSystemTemplateSync_def exampleEnv_def)
  have mode: "promptMode baseParams \<noteq> none"
    by (simp add: promptMode_def baseParams_def)
  from sections_joined_by_single_newlines [OF lookup mode] lookup mode show ?thesis
    by blast
qed

text \<open>
  Claim C6 as stated fails: the prompt of a caller that passes only the workspace
  directory has the sections Tool Call Style, Safety, Workspace and others one after
  the other, and no blank line anywhere.
\<close>

theorem no_blank_line_counterexample:
  "promptIncludes (buildAgentSystemPrompt exampleEnv baseParams) ''## Tool Call Style''
   \<and> promptIncludes (buildAgentSystemPrompt exampleEnv baseParams) ''## Safety''
   \<and> promptIncludes (buildAgentSystemPrompt exampleEnv baseParams) ''## Workspace''
   \<and> \<not> promptIncludes (buildAgentSystemPrompt exampleEnv baseParams) (NL @ NL)"
proof -
  have "AgentPromptParams.promptMode baseParams \<noteq> Some none"
    by (simp add: baseParams_def)
  then have out: "buildAgentSystemPrompt exampleEnv baseParams
                  = Inr (join NL (filter truthy (lines exampleEnv baseParams)))"
    by (rule exampleEnv_default_path)
  have headers: "''## Tool Call Style'' \<in> set (filter truthy (lines exampleEnv baseParams))"
    "''## Safety'' \<in> set (filter truthy (lines exampleEnv baseParams))"
    "''## Workspace'' \<in> set (filter truthy (lines exampleEnv baseParams))"
    by code_simp+
  have same: "includesStr s s" for s
    unfolding includesStr_iff by (metis append_Nil append_Nil2)
  have "list_all (\<lambda>entry. \<not> (entry = [] \<or> hd entry = CHR 0x0A \<or> last entry = CHR 0x0A
                              \<or> includesStr entry [CHR 0x0A, CHR 0x0A]))
          (filter truthy (lines exampleEnv baseParams))"
    by code_simp
  then have "\<not> includesStr (join NL (filter truthy (lines exampleEnv baseParams))) (NL @ NL)"
    by (rule blank_free_join)
  then show ?thesis
    unfolding out using includesStr_member_join [OF headers(1) same]
      includesStr_member_join [OF headers(2) same] includesStr_member_join [OF headers(3) same]
    by simp
qed

section \<open>The mode \<open>minimal\<close>\<close>















section \<open>The persona line of the Project Context section\<close>

lemma isSoulFile_namesSoulFile: "isSoulFile eng file = namesSoulFile eng (path file)"
proof -
  have "pop (split c s) = Some (last (split c s))" for c s
    using split_not_Nil [of c s] by (cases "split c s") simp_all
  then show ?thesis
    by (simp add: isSoulFile_def namesSoulFile_def pathBaseName_def last_split Let_def)
qed

lemma section_lines:
  assumes "persona \<noteq> []" and "CHR 0x0A \<notin> set persona"
    and "persona \<notin> set (split (CHR 0x0A) h1)" and "persona \<notin> set (split (CHR 0x0A) h3)"
  shows "persona \<in> set (split (CHR 0x0A)
           (join NL ([h1, [], h3] @ (if soul then [persona] else []) @ [[]]
                     @ concat (map (\<lambda>file. [heading file, [], content file, []]) files))))
         \<longleftrightarrow> soul \<or> (\<exists>file \<in> set files.
                 persona \<in> set (split (CHR 0x0A) (heading file))
                 \<or> persona \<in> set (split (CHR 0x0A) (content file)))"
proof -
  define entries where "entries = [h1, [], h3] @ (if soul then [persona] else []) @ [[]]
                     @ concat (map (\<lambda>file. [heading file, [], content file, []]) files)"
  have own: "split (CHR 0x0A) persona = [persona]"
    using assms(2) by (rule split_no_separator)
  have blocks: "persona \<in> set (concat (map (split (CHR 0x0A))
                  (concat (map (\<lambda>file. [heading file, [], content file, []]) files))))
                \<longleftrightarrow> (\<exists>file \<in> set files.
                       persona \<in> set (split (CHR 0x0A) (heading file))
                       \<or> persona \<in> set (split (CHR 0x0A) (content file)))"
    using assms(1) by (induction files) auto
  have "entries \<noteq> []"
    by (simp add: entries_def)
  then have "split (CHR 0x0A) (join NL entries) = concat (map (split (CHR 0x0A)) entries)"
    by (simp add: NL_def split_join)
  then have "persona \<in> set (split (CHR 0x0A) (join NL entries))
             \<longleftrightarrow> persona \<in> set (concat (map (split (CHR 0x0A)) entries))"
    by simp
  also have "\<dots> \<longleftrightarrow> soul \<or> (\<exists>file \<in> set files.
                 persona \<in> set (split (CHR 0x0A) (heading file))
                 \<or> persona \<in> set (split (CHR 0x0A) (content file)))"
    unfolding entries_def using assms(1,3,4) own blocks by (cases soul) auto
  finally show ?thesis
    unfolding entries_def .
qed

text \<open>
  Claim C9, as amended. With a non-empty list of context files, the Project Context
  section is its two header lines, then the persona line exactly when some file's path
  names the soul file (base name \<open>soul.md\<close> in any case of the letters, after trimming and
  turning backslashes into slashes), then an empty line and the block of each file. The
  heading and the content of a file are copied into its block as they are, so the printed
  section has the persona line among its lines exactly when a file names the soul file
  or the heading or the content of some file has that line. The section is a piece of the
  array of lines of the default path.
\<close>

theorem project_context_soul_line:
  assumes "AgentPromptParams.contextFiles params = Some files"
    and "files \<noteq> []"
  shows \<open>buildProjectContextSection (engine env) (AgentPromptParams.contextFiles params)
           = [''# Project Context'',
              '''',
              ''The following project context files have been loaded:'']
             @ (if \<exists>file \<in> set files. namesSoulFile (engine env) (path file)
                then [''If SOUL.md is present, embody its persona and tone. Avoid stiff, generic replies; follow its guidance unless higher-priority instructions override it.'']
                else [])
             @ ['''']
             @ concat (map (\<lambda>file. [''## '' @ path file, '''', content file, '''']) files)
         \<and> (''If SOUL.md is present, embody its persona and tone. Avoid stiff, generic replies; follow its guidance unless higher-priority instructions override it.''
               \<in> set (split (CHR 0x0A)
                     (join NL (buildProjectContextSection (engine env)
                                 (AgentPromptParams.contextFiles params))))
              \<longleftrightarrow> (\<exists>file \<in> set files.
                     namesSoulFile (engine env) (path file)
                     \<or> ''If SOUL.md is present, embody its persona and tone. Avoid stiff, generic replies; follow its guidance unless higher-priority instructions override it.''
                         \<in> set (split (CHR 0x0A) (''## '' @ path file))
                     \<or> ''If SOUL.md is present, embody its persona and tone. Avoid stiff, generic replies; follow its guidance unless higher-priority instructions override it.''
                         \<in> set (split (CHR 0x0A) (content file))))
         \<and> (\<exists>before after. lines env params
               = before
                 @ buildProjectContextSection (engine env) (AgentPromptParams.contextFiles params)
                 @ after)\<close>
proof -
  define persona where \<open>persona = ''If SOUL.md is present, embody its persona and tone. Avoid stiff, generic replies; follow its guidance unless higher-priority instructions override it.''\<close>
  define soul where "soul = (\<exists>file \<in> set files. namesSoulFile (engine env) (path file))"
  have persona: "persona \<noteq> []" "CHR 0x0A \<notin> set persona"
    \<open>persona \<notin> set (split (CHR 0x0A) ''# Project Context'')\<close>
    \<open>persona \<notin> set (split (CHR 0x0A) ''The following project context files have been loaded:'')\<close>
    unfolding persona_def by simp_all
  have "list_ex (isSoulFile (engine env)) files = soul"
    by (simp add: list_ex_iff isSoulFile_namesSoulFile soul_def)
  then have sect: \<open>buildProjectContextSection (engine env) (AgentPromptParams.contextFiles params)
           = [''# Project Context'',
              [],
              ''The following project context files have been loaded:'']
             @ (if soul then [persona] else [])
             @ [[]]
             @ concat (map (\<lambda>file. [''## '' @ path file, [], content file, []]) files)\<close>
    using assms by (simp add: buildProjectContextSection_def soulLine_def persona_def Let_def)
  have piece: "\<exists>before after. lines env params
               = before
                 @ buildProjectContextSection (engine env) (AgentPromptParams.contextFiles params)
                 @ after"
    by (rule lines_project_context [OF lines_def])
  have printed: "persona \<in> set (split (CHR 0x0A)
                     (join NL (buildProjectContextSection (engine env)
                                 (AgentPromptParams.contextFiles params))))
              \<longleftrightarrow> (\<exists>file \<in> set files.
                     namesSoulFile (engine env) (path file)
                     \<or> persona \<in> set (split (CHR 0x0A) (''## '' @ path file))
                     \<or> persona \<in> set (split (CHR 0x0A) (content file)))"
    unfolding sect section_lines [OF persona, where heading = "\<lambda>file. ''## '' @ path file"] soul_def
    by blast
  from sect printed piece show ?thesis
    unfolding persona_def soul_def by simp
qed

theorem project_context_soul_line_witness:
  \<open>AgentPromptParams.contextFiles soulParams
     = Some [\<lparr> path = ''AGENTS.md'', content = ''Be brief.'' \<rparr>,
             \<lparr> path = '' docs'' @ [CHR 0x5C] @ ''persona/Soul.MD '',
               content = ''You are a pirate.'' \<rparr>]
   \<and> namesSoulFile (engine exampleEnv) ('' docs'' @ [CHR 0x5C] @ ''persona/Soul.MD '')
   \<and> buildProjectContextSection (engine exampleEnv) (AgentPromptParams.contextFiles soulParams)
       = [''# Project Context'',
          '''',
          ''The following project context files have been loaded:'',
          ''If SOUL.md is present, embody its persona and tone. Avoid stiff, generic replies; follow its guidance unless higher-priority instructions override it.'',
          '''',
          ''## AGENTS.md'', '''', ''Be brief.'', '''',
          ''##  docs'' @ [CHR 0x5C] @ ''persona/Soul.MD '', '''', ''You are a pirate.'', '''']
   \<and> ''If SOUL.md is present, embody its persona and tone. Avoid stiff, generic replies; follow its guidance unless higher-priority instructions override it.''
       \<in> set (split (CHR 0x0A)
             (join NL (buildProjectContextSection (engine exampleEnv)
                         (AgentPromptParams.contextFiles soulParams))))\<close>
proof -
  have files: "AgentPromptParams.contextFiles soulParams
     = Some [\<lparr> path = ''AGENTS.md'', content = ''Be brief.'' \<rparr>,
             \<lparr> path = '' docs'' @ [CHR 0x5C] @ ''persona/Soul.MD '',
               content = ''You are a pirate.'' \<rparr>]"
    by (simp add: soulParams_def)
  have nonempty: "[\<lparr> path = ''AGENTS.md'', content = ''Be brief.'' \<rparr>,
             \<lparr> path = '' docs'' @ [CHR 0x5C] @ ''persona/Soul.MD '',
               content = ''You are a pirate.'' \<rparr>] \<noteq> []"
    by simp
  have soul: "namesSoulFile (engine exampleEnv) ('' docs'' @ [CHR 0x5C] @ ''persona/Soul.MD '')"
    by code_simp
  note claim = project_context_soul_line [OF files nonempty, of exampleEnv]
  have sect: \<open>buildProjectContextSection (engine exampleEnv) (AgentPromptParams.contextFiles soulParams)
       = [''# Project Context'',
          '''',
          ''The following project context files have been loaded:'',
          ''If SOUL.md is present, embody its persona and tone. Avoid stiff, generic replies; follow its guidance unless higher-priority instructions override it.'',
          '''',
          ''## AGENTS.md'', '''', ''Be brief.'', '''',
          ''##  docs'' @ [CHR 0x5C] @ ''persona/Soul.MD '', '''', ''You are a pirate.'', '''']\<close>
    using claim [THEN conjunct1] soul by simp
  have \<open>\<exists>file \<in> set [\<lparr> path = ''AGENTS.md'', content = ''Be brief.'' \<rparr>,
             \<lparr> path = '' docs'' @ [CHR 0x5C] @ ''persona/Soul.MD '',
               content = ''You are a pirate.'' \<rparr>].
           namesSoulFile (engine exampleEnv) (path file)
           \<or> ''If SOUL.md is present, embody its persona and tone. Avoid stiff, generic replies; follow its guidance unless higher-priority instructions override it.''
               \<in> set (split (CHR 0x0A) (''## '' @ path file))
           \<or> ''If SOUL.md is present, embody its persona and tone. Avoid stiff, generic replies; follow its guidance unless higher-priority instructions override it.''
               \<in> set (split (CHR 0x0A) (content file))\<close>
    using soul by simp
  then have line: \<open>''If SOUL.md is present, embody its persona and tone. Avoid stiff, generic replies; follow its guidance unless higher-priority instructions override it.''
       \<in> set (split (CHR 0x0A)
             (join NL (buildProjectContextSection (engine exampleEnv)
                         (AgentPromptParams.contextFiles soulParams))))\<close>
    by (rule iffD2 [OF claim [THEN conjunct2, THEN conjunct1]])
  from files soul sect line show ?thesis
    by blast
qed

text \<open>
  Claim C9 as stated fails on a context file that quotes the persona line: the line is
  in the section, and in the prompt, although no path names the soul file.
\<close>

theorem persona_line_in_content_counterexample:
  \<open>AgentPromptParams.contextFiles quotedPersonaParams
     = Some [\<lparr> path = ''NOTES.md'',
               content = ''If SOUL.md is present, embody its persona and tone. Avoid stiff, generic replies; follow its guidance unless higher-priority instructions override it.'' \<rparr>]
   \<and> \<not> namesSoulFile (engine exampleEnv) ''NOTES.md''
   \<and> ''If SOUL.md is present, embody its persona and tone. Avoid stiff, generic replies; follow its guidance unless higher-priority instructions override it.''
       \<in> set (buildProjectContextSection (engine exampleEnv)
                (AgentPromptParams.contextFiles quotedPersonaParams))
   \<and> promptHasLine (buildAgentSystemPrompt exampleEnv quotedPersonaParams)
         ''If SOUL.md is present, embody its persona and tone. Avoid stiff, generic replies; follow its guidance unless higher-priority instructions override it.''\<close>
proof -
  have files: \<open>AgentPromptParams.contextFiles quotedPersonaParams
     = Some [\<lparr> path = ''NOTES.md'',
               content = ''If SOUL.md is present, embody its persona and tone. Avoid stiff, generic replies; follow its guidance unless higher-priority instructions override it.'' \<rparr>]\<close>
    by (simp add: quotedPersonaParams_def)
  have other: "\<not> namesSoulFile (engine exampleEnv) ''NOTES.md''"
    by code_simp
  have entry: \<open>''If SOUL.md is present, embody its persona and tone. Avoid stiff, generic replies; follow its guidance unless higher-priority instructions override it.''
       \<in> set (buildProjectContextSection (engine exampleEnv)
                (AgentPromptParams.contextFiles quotedPersonaParams))\<close>
    unfolding files by (simp add: buildProjectContextSection_def)
  have "AgentPromptParams.promptMode quotedPersonaParams \<noteq> Some none"
    by (simp add: quotedPersonaParams_def baseParams_def)
  then have out: "buildAgentSystemPrompt exampleEnv quotedPersonaParams
                  = Inr (join NL (filter truthy (lines exampleEnv quotedPersonaParams)))"
    by (rule exampleEnv_default_path)
  have \<open>''If SOUL.md is present, embody its persona and tone. Avoid stiff, generic replies; follow its guidance unless higher-priority instructions override it.''
       \<in> set (concat (map (split (CHR 0x0A))
                (filter truthy (lines exampleEnv quotedPersonaParams))))\<close>
    by code_simp
  then have line: \<open>promptHasLine (buildAgentSystemPrompt exampleEnv quotedPersonaParams)
         ''If SOUL.md is present, embody its persona and tone. Avoid stiff, generic replies; follow its guidance unless higher-priority instructions override it.''\<close>
    unfolding out promptHasLine_join [OF lines_truthy] .
  from files other entry line show ?thesis
    by blast
qed


section \<open>What the result depends on\<close>

lemma canonicalByNormalized_same_engine:
  "engine env1 = engine env2
   \<Longrightarrow> canonicalByNormalized env1 params = canonicalByNormalized env2 params"
  by (simp add: canonicalByNormalized_def)




















section \<open>Errors of the template lookup and absent fields\<close>















end
